theory Spec2Isabelle
  imports Complex_Main
begin

section \<open>Python values used by the pipeline\<close>

text \<open>
  The backend is Python. Exceptions are values of \<open>py_exception\<close>; a function that can
  raise returns \<open>py_exception + 'a\<close> with \<open>Inl\<close> for the raise. Dictionaries with string
  keys are association lists read with \<open>map_of\<close>. Floating-point numbers (sizes in MB,
  durations and timestamps in seconds) are idealised as exact rationals.
\<close>

datatype py_exception =
    TypeError string
  | KeyError string
  | ZeroDivisionError
  | Exception string

type_synonym 'v dict = "(string \<times> 'v) list"

text \<open>\<open>d[k]\<close> raises KeyError on a missing key; \<open>d.get(k, default)\<close> does not.\<close>

definition getitem :: "'v dict \<Rightarrow> string \<Rightarrow> py_exception + 'v" where
  "getitem d k = (case map_of d k of None \<Rightarrow> Inl (KeyError k) | Some v \<Rightarrow> Inr v)"

definition dict_get :: "'v dict \<Rightarrow> string \<Rightarrow> 'v \<Rightarrow> 'v" where
  "dict_get d k dflt = (case map_of d k of None \<Rightarrow> dflt | Some v \<Rightarrow> v)"

text \<open>
  \<open>str.lower()\<close> on the ASCII letters. Characters are bytes here; no key of the voice
  table holds a letter that a non-ASCII character lower-cases to.
\<close>

definition lower_char :: "char \<Rightarrow> char" where
  "lower_char c =
     (let n = (of_char c :: nat) in if 65 \<le> n \<and> n \<le> 90 then char_of (n + 32) else c)"

definition str_lower :: "string \<Rightarrow> string" where
  "str_lower s = map lower_char s"

text \<open>\<open>int(x)\<close> on a float truncates toward zero.\<close>

definition py_int :: "rat \<Rightarrow> int" where
  "py_int x = (if 0 \<le> x then \<lfloor>x\<rfloor> else \<lceil>x\<rceil>)"

section \<open>Voice selection (tts_service.py, TTSService.get_voice)\<close>

definition VOICE_MAP :: "(string dict) dict" where
  "VOICE_MAP =
     [(''hindi'',   [(''male'', ''hi-IN-MadhurNeural''),   (''female'', ''hi-IN-SwaraNeural'')]),
      (''tamil'',   [(''male'', ''ta-IN-ValluvarNeural''), (''female'', ''ta-IN-PallaviNeural'')]),
      (''bengali'', [(''male'', ''bn-IN-BashkarNeural''),  (''female'', ''bn-IN-TanishaaNeural'')]),
      (''telugu'',  [(''male'', ''te-IN-MohanNeural''),    (''female'', ''te-IN-ShrutiNeural'')]),
      (''marathi'', [(''male'', ''mr-IN-ManoharNeural''),  (''female'', ''mr-IN-AarohiNeural'')]),
      (''english'', [(''male'', ''en-IN-PrabhatNeural''),  (''female'', ''en-IN-NeerjaNeural'')])]"

text \<open>
  \<^verbatim>\<open>lang_voices = self.VOICE_MAP.get(language.lower(), self.VOICE_MAP["hindi"])\<close>
  \<^verbatim>\<open>return lang_voices.get(gender, lang_voices["female"])\<close>
  Python evaluates the default argument before the call, so both subscripts are
  evaluated on every call and each is a place where KeyError could be raised.
\<close>

definition get_voice :: "string \<Rightarrow> string \<Rightarrow> py_exception + string" where
  "get_voice language gender =
     (case getitem VOICE_MAP ''hindi'' of
        Inl e \<Rightarrow> Inl e
      | Inr hindi_voices \<Rightarrow>
          (let lang_voices = dict_get VOICE_MAP (str_lower language) hindi_voices in
           case getitem lang_voices ''female'' of
             Inl e \<Rightarrow> Inl e
           | Inr female_voice \<Rightarrow> Inr (dict_get lang_voices gender female_voice)))"

section \<open>Compact-variant bitrate (ffmpeg_service.py, create_whatsapp_version)\<close>

text \<open>
  \<^verbatim>\<open>target_bitrate = int((target_size_mb * 8192) / duration) - 128\<close>
  \<^verbatim>\<open>target_bitrate = max(target_bitrate, 200)  # Minimum 200kbps\<close>
  The division raises ZeroDivisionError for a zero duration.
\<close>

definition whatsapp_target_bitrate :: "rat \<Rightarrow> rat \<Rightarrow> py_exception + int" where
  "whatsapp_target_bitrate target_size_mb duration =
     (if duration = 0 then Inl ZeroDivisionError
      else Inr (max (py_int ((target_size_mb * 8192) / duration) - 128) 200))"

section \<open>Bounded retry of the AI collaborator (gemini_service.py, analyze_video)\<close>

definition MAX_RETRIES :: nat where
  "MAX_RETRIES = 10"

definition INITIAL_RETRY_DELAY_SECONDS :: nat where
  "INITIAL_RETRY_DELAY_SECONDS = 5"

text \<open>\<open>sub in s\<close> on strings.\<close>

fun str_contains :: "string \<Rightarrow> string \<Rightarrow> bool" where
  "str_contains sub [] = (sub = [])"
| "str_contains sub (c # cs) = (take (length sub) (c # cs) = sub \<or> str_contains sub cs)"

text \<open>
  \<^verbatim>\<open>error_str = str(e).lower()\<close>
  \<^verbatim>\<open>any(err in error_str for err in ["resourceexhausted", "429", "quota", "503",\<close>
  \<^verbatim>\<open>                                    "serviceunavailable", "overloaded"])\<close>
\<close>

definition is_transient :: "string \<Rightarrow> bool" where
  "is_transient e =
     list_ex (\<lambda>err. str_contains err (str_lower e))
       [''resourceexhausted'', ''429'', ''quota'', ''503'', ''serviceunavailable'', ''overloaded'']"

text \<open>
  One call of \<open>client.models.generate_content\<close> either returns a response or raises an
  exception whose \<open>str\<close> is the given message. The collaborator is a function from the
  attempt number to the outcome of that attempt.
\<close>

datatype 'r attempt_outcome = Responded 'r | Raised string

text \<open>
  The loop \<^verbatim>\<open>for attempt in range(MAX_RETRIES)\<close> over the remaining attempt numbers. The
  second component is the list of \<open>time.sleep\<close> arguments so far, oldest first. The
  result is \<open>Inl\<close> for the re-raised exception, \<open>Inr (Inl msg)\<close> for
  \<^verbatim>\<open>return {"error": msg}\<close> and \<open>Inr (Inr r)\<close> for a response \<open>r\<close> (\<open>break\<close>). When the
  loop runs out with \<open>response\<close> still \<open>None\<close> the function returns the error after it.
\<close>

fun retry_loop ::
  "(nat \<Rightarrow> 'r attempt_outcome) \<Rightarrow> nat list \<Rightarrow> nat list \<Rightarrow>
     (py_exception + string + 'r) \<times> nat list" where
  "retry_loop api [] slept = (Inr (Inl ''Failed to get response from Gemini API''), slept)"
| "retry_loop api (attempt # rest) slept =
     (case api attempt of
        Responded r \<Rightarrow> (Inr (Inr r), slept)
      | Raised e \<Rightarrow>
          if is_transient e then
            (let delay = INITIAL_RETRY_DELAY_SECONDS * 2 ^ attempt in
             if attempt < MAX_RETRIES - 1 then retry_loop api rest (slept @ [delay])
             else (Inr (Inl ''API quota exceeded after multiple retries. Please wait and try again.''),
                   slept))
          else (Inl (Exception e), slept))"

definition generate_with_retry ::
  "(nat \<Rightarrow> 'r attempt_outcome) \<Rightarrow> (py_exception + string + 'r) \<times> nat list" where
  "generate_with_retry api = retry_loop api [0..<MAX_RETRIES] []"

text \<open>The attempt fails with an error of the transient class.\<close>

definition transient_failure :: "'r attempt_outcome \<Rightarrow> bool" where
  "transient_failure out = (case out of Responded r \<Rightarrow> False | Raised e \<Rightarrow> is_transient e)"

definition backoff_delays :: "nat \<Rightarrow> nat list" where
  "backoff_delays k = map (\<lambda>i. INITIAL_RETRY_DELAY_SECONDS * 2 ^ i) [0..<k]"


section \<open>String formatting helpers\<close>

definition digit_char :: "nat \<Rightarrow> char" where
  "digit_char d = char_of (48 + d)"

text \<open>\<open>str(n)\<close> for a natural number.\<close>

fun str_nat :: "nat \<Rightarrow> string" where
  "str_nat n = (if n < 10 then [digit_char n] else str_nat (n div 10) @ [digit_char (n mod 10)])"

declare str_nat.simps [simp del]

text \<open>Zero padding on the left to a minimum width, as the \<open>0w\<close> format flag does.\<close>

definition zero_pad :: "nat \<Rightarrow> string \<Rightarrow> string" where
  "zero_pad w s = replicate (w - length s) (CHR ''0'') @ s"

text \<open>\<open>os.path.join(a, b)\<close> for two components on a POSIX system.\<close>

definition path_join :: "string \<Rightarrow> string \<Rightarrow> string" where
  "path_join a b =
     (if b \<noteq> [] \<and> hd b = CHR ''/'' then b
      else if a = [] \<or> last a = CHR ''/'' then a @ b
      else a @ ''/'' @ b)"

text \<open>\<open>str(e)\<close> for the exceptions of the model.\<close>

definition str_exception :: "py_exception \<Rightarrow> string" where
  "str_exception e =
     (case e of
        TypeError m \<Rightarrow> m
      | KeyError k \<Rightarrow> [CHR 0x27] @ k @ [CHR 0x27]
      | ZeroDivisionError \<Rightarrow> ''float division by zero''
      | Exception m \<Rightarrow> m)"

text \<open>
  \<open>str.strip()\<close>: removes the leading and the trailing whitespace characters. Strings
  are UTF-8 byte sequences, so a whitespace character is one of the byte sequences of
  \<open>whitespace_chars\<close>: the ASCII whitespace (U+0009 to U+000D, U+001C to U+0020) and the
  encodings of U+0085, U+00A0, U+1680, U+2000 to U+200A, U+2028, U+2029, U+202F, U+205F
  and U+3000, which are all the characters for which \<open>str.isspace\<close> holds.
\<close>

definition whitespace_chars :: "string list" where
  "whitespace_chars =
     map (\<lambda>c. [c])
       [CHR 0x09, CHR 0x0A, CHR 0x0B, CHR 0x0C, CHR 0x0D, CHR 0x1C, CHR 0x1D, CHR 0x1E,
        CHR 0x1F, CHR 0x20] @
     [[CHR 0xC2, CHR 0x85], [CHR 0xC2, CHR 0xA0], [CHR 0xE1, CHR 0x9A, CHR 0x80]] @
     map (\<lambda>c. [CHR 0xE2, CHR 0x80, c])
       [CHR 0x80, CHR 0x81, CHR 0x82, CHR 0x83, CHR 0x84, CHR 0x85, CHR 0x86, CHR 0x87,
        CHR 0x88, CHR 0x89, CHR 0x8A, CHR 0xA8, CHR 0xA9, CHR 0xAF] @
     [[CHR 0xE2, CHR 0x81, CHR 0x9F], [CHR 0xE3, CHR 0x80, CHR 0x80]]"

text \<open>
  The number of bytes of the first of the given byte sequences that the string starts
  with; 0 when it starts with none.
\<close>

definition space_width :: "string list \<Rightarrow> string \<Rightarrow> nat" where
  "space_width pats s =
     (case filter (\<lambda>p. take (length p) s = p) pats of [] \<Rightarrow> 0 | p # ps \<Rightarrow> length p)"

fun lstrip :: "string list \<Rightarrow> string \<Rightarrow> string" where
  "lstrip pats [] = []"
| "lstrip pats (c # cs) =
     (if space_width pats (c # cs) = 0 then c # cs
      else lstrip pats (drop (space_width pats (c # cs) - 1) cs))"

text \<open>
  The trailing whitespace is the leading whitespace of the reversed string, with the
  byte sequences reversed.
\<close>

definition str_strip :: "string \<Rightarrow> string" where
  "str_strip s = rev (lstrip (map rev whitespace_chars) (rev (lstrip whitespace_chars s)))"

text \<open>Rounding to the nearest integer, ties to even, as float formatting rounds.\<close>

definition round_half_even :: "rat \<Rightarrow> int" where
  "round_half_even x =
     (let f = \<lfloor>x\<rfloor>; r = x - of_int f
      in if r < 1 / 2 then f else if 1 / 2 < r then f + 1 else if even f then f else f + 1)"

text \<open>\<open>f"{h:02d}"\<close> for an integer; the sign counts toward the width.\<close>

definition fmt_02d :: "int \<Rightarrow> string" where
  "fmt_02d h = (if h < 0 then ''-'' @ zero_pad 1 (str_nat (nat (- h))) else zero_pad 2 (str_nat (nat h)))"

text \<open>\<open>f"{s:06.3f}"\<close> for a non-negative number: three decimals, zero padded to width 6.\<close>

definition fmt_06_3f :: "rat \<Rightarrow> string" where
  "fmt_06_3f s =
     (let millis = nat (round_half_even (s * 1000))
      in zero_pad 6 (str_nat (millis div 1000) @ ''.'' @ zero_pad 3 (str_nat (millis mod 1000))))"

text \<open>\<open>x % m\<close> on floats, for a positive modulus.\<close>

definition float_mod :: "rat \<Rightarrow> rat \<Rightarrow> rat" where
  "float_mod x m = x - m * of_int \<lfloor>x / m\<rfloor>"

section \<open>Speech Synthesis Coordinator (tts_service.py)\<close>

text \<open>
  A timestamp of a segment is a number of seconds (Phase 2) or a clock string such as
  \<open>"00:00"\<close> (the default of \<open>segment.get("start_time", "00:00")\<close>). The fields of a
  segment dictionary are optional: \<open>None\<close> is a missing key.
\<close>

datatype timestamp = Seconds rat | Clock string

record tts_segment =
  tts_start_time :: "timestamp option"
  tts_end_time :: "timestamp option"
  tts_translated_text :: "string option"
  tts_original_text :: "string option"

record AudioSegment =
  audio_text :: string
  audio_file_path :: string
  audio_start_time :: timestamp
  audio_end_time :: timestamp
  audio_duration_ms :: int
  audio_language :: string

text \<open>
  The synthesis collaborator (edge-tts): \<open>communicate_save voice text file_path\<close> is
  \<open>Some msg\<close> when creating the directory, the communicator or the audio file raises an
  exception with message \<open>msg\<close>. \<open>audio_duration\<close> is \<open>_get_audio_duration\<close>, which never
  raises.
\<close>

record tts_env =
  communicate_save :: "string \<Rightarrow> string \<Rightarrow> string \<Rightarrow> string option"
  audio_duration :: "string \<Rightarrow> int"

text \<open>The result dictionary of \<open>generate_audio_segment\<close>: \<open>success\<close> true or false.\<close>

datatype audio_result =
    Audio_ok string string string int nat
  | Audio_failed string string

text \<open>
  \<open>generate_audio_segment\<close> wraps its whole body in \<open>try\<close> and turns every exception into
  a result with \<open>success = False\<close>.
\<close>

definition generate_audio_segment ::
  "tts_env \<Rightarrow> string \<Rightarrow> string \<Rightarrow> string \<Rightarrow> string \<Rightarrow> audio_result" where
  "generate_audio_segment env txt language file_path gender =
     (case get_voice language gender of
        Inl e \<Rightarrow> Audio_failed (str_exception e) file_path
      | Inr voice \<Rightarrow>
          (case communicate_save env voice txt file_path of
             Some err \<Rightarrow> Audio_failed err file_path
           | None \<Rightarrow> Audio_ok file_path voice language (audio_duration env file_path) (length txt)))"

text \<open>
  The loop of \<open>generate_segments_from_analysis\<close> over \<open>enumerate(segments)\<close>, with the list
  \<open>audio_segments\<close> built so far. A segment with empty text is skipped by \<open>continue\<close>; a
  result with \<open>success = False\<close> appends nothing.
\<close>

fun segments_loop ::
  "tts_env \<Rightarrow> string \<Rightarrow> string \<Rightarrow> string \<Rightarrow> (nat \<times> tts_segment) list \<Rightarrow>
     AudioSegment list \<Rightarrow> AudioSegment list" where
  "segments_loop env output_dir language gender [] audio_segments = audio_segments"
| "segments_loop env output_dir language gender ((i, segment) # rest) audio_segments =
     (let filename = ''segment_'' @ zero_pad 4 (str_nat i) @ ''.mp3'';
          file_path = path_join output_dir filename;
          txt = (case tts_translated_text segment of None \<Rightarrow> '''' | Some t \<Rightarrow> t)
      in if txt = '''' then segments_loop env output_dir language gender rest audio_segments
         else
           (case generate_audio_segment env txt language file_path gender of
              Audio_ok p voice lang duration n \<Rightarrow>
                segments_loop env output_dir language gender rest
                  (audio_segments @
                    [\<lparr>audio_text = txt, audio_file_path = file_path,
                      audio_start_time =
                        (case tts_start_time segment of None \<Rightarrow> Clock ''00:00'' | Some t \<Rightarrow> t),
                      audio_end_time =
                        (case tts_end_time segment of None \<Rightarrow> Clock ''00:00'' | Some t \<Rightarrow> t),
                      audio_duration_ms = duration, audio_language = language\<rparr>])
            | Audio_failed err p \<Rightarrow>
                segments_loop env output_dir language gender rest audio_segments))"

definition generate_segments_from_analysis ::
  "tts_env \<Rightarrow> string \<Rightarrow> tts_segment list \<Rightarrow> string \<Rightarrow> string \<Rightarrow> AudioSegment list" where
  "generate_segments_from_analysis env output_dir segments language gender =
     segments_loop env output_dir language gender (enumerate 0 segments) []"

text \<open>
  What one segment contributes: nothing when its text is empty or its synthesis fails,
  its audio resource otherwise.
\<close>

definition segment_audio ::
  "tts_env \<Rightarrow> string \<Rightarrow> string \<Rightarrow> string \<Rightarrow> nat \<times> tts_segment \<Rightarrow> AudioSegment option" where
  "segment_audio env output_dir language gender p =
     (let file_path = path_join output_dir (''segment_'' @ zero_pad 4 (str_nat (fst p)) @ ''.mp3'');
          txt = (case tts_translated_text (snd p) of None \<Rightarrow> '''' | Some t \<Rightarrow> t)
      in if txt = '''' then None
         else
           (case generate_audio_segment env txt language file_path gender of
              Audio_ok q voice lang duration n \<Rightarrow>
                Some \<lparr>audio_text = txt, audio_file_path = file_path,
                      audio_start_time =
                        (case tts_start_time (snd p) of None \<Rightarrow> Clock ''00:00'' | Some t \<Rightarrow> t),
                      audio_end_time =
                        (case tts_end_time (snd p) of None \<Rightarrow> Clock ''00:00'' | Some t \<Rightarrow> t),
                      audio_duration_ms = duration, audio_language = language\<rparr>
            | Audio_failed err q \<Rightarrow> None))"

text \<open>The synthesis of a segment with the given index and text fails.\<close>

definition synthesis_fails ::
  "tts_env \<Rightarrow> string \<Rightarrow> string \<Rightarrow> string \<Rightarrow> nat \<Rightarrow> string \<Rightarrow> bool" where
  "synthesis_fails env output_dir language gender i txt =
     (case generate_audio_segment env txt language
             (path_join output_dir (''segment_'' @ zero_pad 4 (str_nat i) @ ''.mp3'')) gender of
        Audio_ok q voice lang duration n \<Rightarrow> False
      | Audio_failed err q \<Rightarrow> True)"


section \<open>Subtitle Formatter (routes/video.py, process_finalize_dubbing, step 4.5)\<close>

text \<open>
  An approved segment of the finalize request. The fields are optional: \<open>None\<close> is a
  missing key, for which \<open>seg.get\<close> supplies its default. Values have their JSON types
  (numbers for the times, strings for the texts).
\<close>

record approved_segment =
  seg_start :: "rat option"
  seg_end :: "rat option"
  seg_translated_text :: "string option"
  seg_original_text :: "string option"

text \<open>
  \<^verbatim>\<open>h = int(seconds // 3600); m = int((seconds % 3600) // 60); s = seconds % 60\<close>
  \<^verbatim>\<open>return f"{h:02d}:{m:02d}:{s:06.3f}"\<close>
\<close>

definition format_vtt_time :: "rat \<Rightarrow> string" where
  "format_vtt_time seconds =
     (let h = \<lfloor>seconds / 3600\<rfloor>;
          m = \<lfloor>float_mod seconds 3600 / 60\<rfloor>;
          s = float_mod seconds 60
      in fmt_02d h @ '':'' @ fmt_02d m @ '':'' @ fmt_06_3f s)"

text \<open>\<open>seg.get("translated_text", "").strip()\<close>\<close>

definition caption_text :: "approved_segment \<Rightarrow> string" where
  "caption_text seg = str_strip (case seg_translated_text seg of None \<Rightarrow> '''' | Some t \<Rightarrow> t)"

text \<open>
  The loop over \<open>enumerate(approved_segments)\<close> with the list \<open>vtt_lines\<close> built so far: a
  segment whose stripped text is empty is skipped by \<open>continue\<close>; otherwise four lines
  are appended, the first being \<open>str(idx + 1)\<close>.
\<close>

fun vtt_loop :: "(nat \<times> approved_segment) list \<Rightarrow> string list \<Rightarrow> string list" where
  "vtt_loop [] vtt_lines = vtt_lines"
| "vtt_loop ((idx, seg) # rest) vtt_lines =
     (let start_sec = (case seg_start seg of None \<Rightarrow> 0 | Some x \<Rightarrow> x);
          end_sec = (case seg_end seg of None \<Rightarrow> 0 | Some x \<Rightarrow> x);
          txt = caption_text seg
      in if txt = '''' then vtt_loop rest vtt_lines
         else vtt_loop rest
                (vtt_lines @
                  [str_nat (idx + 1),
                   format_vtt_time start_sec @ '' --> '' @ format_vtt_time end_sec,
                   txt,
                   '''']))"

definition vtt_lines :: "approved_segment list \<Rightarrow> string list" where
  "vtt_lines approved_segments = vtt_loop (enumerate 0 approved_segments) [''WEBVTT'', '''']"

text \<open>\<open>"\n".join(lines)\<close>\<close>

fun join_lines :: "string list \<Rightarrow> string" where
  "join_lines [] = ''''"
| "join_lines [l] = l"
| "join_lines (l # ls) = l @ [CHR 0x0A] @ join_lines ls"

definition vtt_content :: "approved_segment list \<Rightarrow> string" where
  "vtt_content approved_segments = join_lines (vtt_lines approved_segments)"

text \<open>The caption block with a given number for a segment.\<close>

definition vtt_block :: "nat \<Rightarrow> approved_segment \<Rightarrow> string list" where
  "vtt_block number seg =
     [str_nat number,
      format_vtt_time (case seg_start seg of None \<Rightarrow> 0 | Some x \<Rightarrow> x) @ '' --> '' @
        format_vtt_time (case seg_end seg of None \<Rightarrow> 0 | Some x \<Rightarrow> x),
      caption_text seg,
      '''']"


section \<open>Media Stitcher (ffmpeg_service.py)\<close>

record ProcessingResult =
  success :: bool
  output_path :: "string option"
  file_size_mb :: rat
  duration_seconds :: rat
  pr_error :: "string option"

definition failed_result :: "string \<Rightarrow> ProcessingResult" where
  "failed_result err =
     \<lparr>success = False, output_path = None, file_size_mb = 0, duration_seconds = 0,
      pr_error = Some err\<rparr>"

text \<open>
  The codec collaborator. \<open>probe path\<close> is what \<open>ffmpeg.probe\<close> gives for a file when it
  is inspected: an error message, or the duration in seconds and the size in MB.
  \<open>concat_run\<close>, \<open>merge_run\<close> and \<open>whatsapp_run\<close> are the three encodes, each \<open>Some msg\<close>
  when it raises. \<open>merge_run\<close> receives the output options of the merge.
\<close>

record ffmpeg_env =
  ffmpeg_available :: bool
  probe :: "string \<Rightarrow> string + rat \<times> rat"
  stitch_temp_dir :: string
  concat_run :: "string list \<Rightarrow> string \<Rightarrow> string option"
  merge_run :: "string \<Rightarrow> string \<Rightarrow> string \<Rightarrow> string dict \<Rightarrow> string option"
  whatsapp_run :: "string \<Rightarrow> string \<Rightarrow> int \<Rightarrow> string option"

text \<open>\<open>get_video_info\<close>: an error dictionary, or duration and size.\<close>

definition get_video_info :: "ffmpeg_env \<Rightarrow> string \<Rightarrow> string + rat \<times> rat" where
  "get_video_info env video_path =
     (if \<not> ffmpeg_available env then Inl ''FFmpeg not installed'' else probe env video_path)"

definition concatenate_audio_segments ::
  "ffmpeg_env \<Rightarrow> string list \<Rightarrow> string \<Rightarrow> string option" where
  "concatenate_audio_segments env audio_files out =
     (if \<not> ffmpeg_available env then Some ''FFmpeg not installed''
      else if audio_files = [] then Some ''No audio files provided''
      else concat_run env audio_files out)"

text \<open>The dictionaries \<open>{file_path, start_time, end_time}\<close> handed to \<open>stitch_video\<close>.\<close>

record audio_segment_dict =
  dict_file_path :: string
  dict_start_time :: timestamp
  dict_end_time :: timestamp

definition output_options :: "bool \<Rightarrow> string dict" where
  "output_options optimize_for_mobile =
     [(''vcodec'', ''libx264''), (''acodec'', ''aac''), (''audio_bitrate'', ''128k''),
      (''shortest'', ''None'')] @
     (if optimize_for_mobile
      then [(''preset'', ''fast''), (''crf'', ''28''), (''vf'', ''scale=-2:480''),
            (''movflags'', ''+faststart'')]
      else [(''preset'', ''medium''), (''crf'', ''23'')])"

text \<open>
  \<^verbatim>\<open>def stitch_video(self, original_video_path, audio_segments, output_path,\<close>
  \<^verbatim>\<open>                 optimize_for_mobile=True) -> ProcessingResult\<close>
  The body catches every exception and returns a failed result. The combined audio is
  merged as it is: no option of the merge delays, offsets or stretches it.
\<close>

definition stitch_video ::
  "ffmpeg_env \<Rightarrow> string \<Rightarrow> audio_segment_dict list \<Rightarrow> string \<Rightarrow> bool \<Rightarrow> ProcessingResult" where
  "stitch_video env original_video_path audio_segments out optimize_for_mobile =
     (if \<not> ffmpeg_available env
      then failed_result
             ''FFmpeg not installed. Please install FFmpeg: https://ffmpeg.org/download.html''
      else
        (case get_video_info env original_video_path of
           Inl err \<Rightarrow> failed_result (''Cannot read video: '' @ err)
         | Inr video_info \<Rightarrow>
             (let audio_files = filter (\<lambda>p. p \<noteq> '''') (map dict_file_path audio_segments)
              in if audio_files = [] then failed_result ''No audio segments provided''
                 else
                   (let combined_audio = path_join (stitch_temp_dir env) ''combined_audio.mp3''
                    in case concatenate_audio_segments env audio_files combined_audio of
                         Some err \<Rightarrow> failed_result (''Audio concatenation failed: '' @ err)
                       | None \<Rightarrow>
                           (case merge_run env original_video_path combined_audio out
                                   (output_options optimize_for_mobile) of
                              Some err \<Rightarrow> failed_result (''FFmpeg error: '' @ err)
                            | None \<Rightarrow>
                                (let final_info = get_video_info env out
                                 in \<lparr>success = True, output_path = Some out,
                                     file_size_mb = (case final_info of Inl e \<Rightarrow> 0 | Inr i \<Rightarrow> snd i),
                                     duration_seconds = (case final_info of Inl e \<Rightarrow> 0 | Inr i \<Rightarrow> fst i),
                                     pr_error = None\<rparr>))))))"

text \<open>The parameter names of \<open>stitch_video\<close>, after \<open>self\<close>.\<close>

definition stitch_video_params :: "string list" where
  "stitch_video_params =
     [''original_video_path'', ''audio_segments'', ''output_path'', ''optimize_for_mobile'']"

text \<open>
  Python binds the keyword arguments of a call to the parameters of the function before
  the body runs; a keyword that names no parameter of a function without \<open>**kwargs\<close>
  raises TypeError.
\<close>

definition unexpected_keyword :: "string \<Rightarrow> string list \<Rightarrow> string list \<Rightarrow> py_exception option" where
  "unexpected_keyword fname params keywords =
     (case filter (\<lambda>k. k \<notin> set params) keywords of
        [] \<Rightarrow> None
      | k # ks \<Rightarrow>
          Some (TypeError (fname @ ''() got an unexpected keyword argument '' @
                           [CHR 0x27] @ k @ [CHR 0x27])))"

text \<open>
  \<open>create_whatsapp_version\<close>: the duration is \<open>info.get('duration', 60)\<close>, so a failed
  probe gives 60. Every exception of the body becomes a failed result.
\<close>

definition create_whatsapp_version ::
  "ffmpeg_env \<Rightarrow> string \<Rightarrow> string \<Rightarrow> rat \<Rightarrow> ProcessingResult" where
  "create_whatsapp_version env input_path out target_size_mb =
     (if \<not> ffmpeg_available env then failed_result ''FFmpeg not installed''
      else
        (let duration = (case get_video_info env input_path of Inl e \<Rightarrow> 60 | Inr i \<Rightarrow> fst i)
         in case whatsapp_target_bitrate target_size_mb duration of
              Inl e \<Rightarrow> failed_result (str_exception e)
            | Inr target_bitrate \<Rightarrow>
                (case whatsapp_run env input_path out target_bitrate of
                   Some err \<Rightarrow> failed_result err
                 | None \<Rightarrow>
                     (let final_info = get_video_info env out
                      in \<lparr>success = True, output_path = Some out,
                          file_size_mb = (case final_info of Inl e \<Rightarrow> 0 | Inr i \<Rightarrow> snd i),
                          duration_seconds = (case final_info of Inl e \<Rightarrow> 0 | Inr i \<Rightarrow> fst i),
                          pr_error = None\<rparr>))))"


section \<open>Persistence Adapter (db_service.py)\<close>

text \<open>
  A DynamoDB attribute value is a string, a number or a map; an item is a dictionary of
  attributes. The table is \<open>None\<close> when the store is not configured; its rows are held in
  sort-key order, the order in which a query returns them.
\<close>

datatype attr = S string | N int | M "(string \<times> attr) list"

type_synonym item = "(string \<times> attr) list"

text \<open>
  The store collaborator: whether \<open>table.query\<close> raises ClientError, the message of the
  ClientError that \<open>table.update_item\<close> raises (if it does), and the clock.
\<close>

record db_env =
  query_fails :: bool
  update_fails :: "string option"
  utcnow :: string

text \<open>Assignment \<open>d[k] = v\<close>: replaces the value of an existing key, appends a new key.\<close>

fun dict_set :: "'v dict \<Rightarrow> string \<Rightarrow> 'v \<Rightarrow> 'v dict" where
  "dict_set [] k v = [(k, v)]"
| "dict_set ((k', v') # d) k v = (if k' = k then (k, v) # d else (k', v') # dict_set d k v)"

text \<open>
  \<open>get_video_by_job_id\<close> returns the first item of the user's partition whose \<open>job_id\<close>
  matches, the item itself, or \<open>None\<close> (store not configured, ClientError, no match).
\<close>

definition matches_job :: "string \<Rightarrow> string \<Rightarrow> item \<Rightarrow> bool" where
  "matches_job user_id job_id it =
     (map_of it ''PK'' = Some (S (''USER#'' @ user_id)) \<and>
      (case map_of it ''SK'' of Some (S sk) \<Rightarrow> take 6 sk = ''VIDEO#'' | _ \<Rightarrow> False) \<and>
      map_of it ''job_id'' = Some (S job_id))"

definition get_video_by_job_id ::
  "db_env \<Rightarrow> item list option \<Rightarrow> string \<Rightarrow> string \<Rightarrow> item option" where
  "get_video_by_job_id env table user_id job_id =
     (case table of
        None \<Rightarrow> None
      | Some rows \<Rightarrow>
          if query_fails env then None
          else (case filter (matches_job user_id job_id) rows of [] \<Rightarrow> None | it # its \<Rightarrow> Some it))"

text \<open>Truth value of an attribute, and the subscript \<open>v[k]\<close> on an attribute.\<close>

definition attr_truthy :: "attr \<Rightarrow> bool" where
  "attr_truthy v = (case v of S s \<Rightarrow> s \<noteq> '''' | N n \<Rightarrow> n \<noteq> 0 | M m \<Rightarrow> m \<noteq> [])"

definition attr_subscript :: "attr \<Rightarrow> string \<Rightarrow> py_exception + attr" where
  "attr_subscript v k =
     (case v of
        M m \<Rightarrow> getitem m k
      | S s \<Rightarrow> Inl (TypeError ''string indices must be integers'')
      | N n \<Rightarrow> Inl (TypeError ''object is not subscriptable''))"

text \<open>What an update method returns: an error dictionary, a success dictionary, or the item.\<close>

datatype db_result = Db_error string | Db_success string | Db_item item

text \<open>
  The common head of \<open>update_job_segments\<close> and \<open>update_job_status\<close>:
  \<^verbatim>\<open>video = self.get_video_by_job_id(user_id, job_id)\<close>
  \<^verbatim>\<open>if "error" in video: return video\<close>
  \<^verbatim>\<open>if not video.get("video"): return {"error": "Video not found"}\<close>
  \<^verbatim>\<open>pk = video["video"]["PK"]; sk = video["video"]["SK"]\<close>
  The membership test on \<open>None\<close> raises TypeError. The result is the exception, the
  early return, or the key.
\<close>

definition locate_video ::
  "db_env \<Rightarrow> item list option \<Rightarrow> string \<Rightarrow> string \<Rightarrow> py_exception + db_result + attr \<times> attr" where
  "locate_video env table user_id job_id =
     (case get_video_by_job_id env table user_id job_id of
        None \<Rightarrow> Inl (TypeError (''argument of type '' @ [CHR 0x27] @ ''NoneType'' @ [CHR 0x27] @
                                 '' is not iterable''))
      | Some video \<Rightarrow>
          if map_of video ''error'' \<noteq> None then Inr (Inl (Db_item video))
          else
            (case map_of video ''video'' of
               None \<Rightarrow> Inr (Inl (Db_error ''Video not found''))
             | Some v \<Rightarrow>
                 if \<not> attr_truthy v then Inr (Inl (Db_error ''Video not found''))
                 else
                   (case attr_subscript v ''PK'' of
                      Inl e \<Rightarrow> Inl e
                    | Inr pk \<Rightarrow>
                        (case attr_subscript v ''SK'' of
                           Inl e \<Rightarrow> Inl e
                         | Inr sk \<Rightarrow> Inr (Inr (pk, sk))))))"

text \<open>
  \<open>table.update_item\<close> with a SET expression: the item with the given key gets the
  attributes; when there is none, an item with that key and those attributes is created.
\<close>

definition has_key :: "attr \<Rightarrow> attr \<Rightarrow> item \<Rightarrow> bool" where
  "has_key pk sk it = (map_of it ''PK'' = Some pk \<and> map_of it ''SK'' = Some sk)"

definition set_attrs :: "item \<Rightarrow> (string \<times> attr) list \<Rightarrow> item" where
  "set_attrs it kvs = fold (\<lambda>kv acc. dict_set acc (fst kv) (snd kv)) kvs it"

definition update_item :: "item list \<Rightarrow> attr \<Rightarrow> attr \<Rightarrow> (string \<times> attr) list \<Rightarrow> item list" where
  "update_item rows pk sk kvs =
     (if list_ex (has_key pk sk) rows
      then map (\<lambda>it. if has_key pk sk it then set_attrs it kvs else it) rows
      else rows @ [set_attrs [(''PK'', pk), (''SK'', sk)] kvs])"

text \<open>An optional argument is added to the SET expression when it is truthy.\<close>

definition opt_attr :: "string \<Rightarrow> string option \<Rightarrow> (string \<times> attr) list" where
  "opt_attr k v = (case v of None \<Rightarrow> [] | Some s \<Rightarrow> if s = '''' then [] else [(k, S s)])"

definition update_job_status ::
  "db_env \<Rightarrow> string \<Rightarrow> string \<Rightarrow> string \<Rightarrow> string option \<Rightarrow> string option \<Rightarrow> string option \<Rightarrow>
     item list option \<Rightarrow> (py_exception + db_result) \<times> item list option" where
  "update_job_status env user_id job_id new_status output_url output_s3_key subtitle_s3_key table =
     (case table of
        None \<Rightarrow> (Inr (Db_error ''DynamoDB not configured''), table)
      | Some rows \<Rightarrow>
          (case locate_video env table user_id job_id of
             Inl e \<Rightarrow> (Inl e, table)
           | Inr (Inl early) \<Rightarrow> (Inr early, table)
           | Inr (Inr (pk, sk)) \<Rightarrow>
               (case update_fails env of
                  Some err \<Rightarrow> (Inr (Db_error err), table)
                | None \<Rightarrow>
                    (Inr (Db_success job_id),
                     Some (update_item rows pk sk
                             ([(''status'', S new_status), (''updated_at'', S (utcnow env @ ''Z''))] @
                              opt_attr ''output_url'' output_url @
                              opt_attr ''output_s3_key'' output_s3_key @
                              opt_attr ''subtitle_s3_key'' subtitle_s3_key))))))"

text \<open>
  \<open>update_job_segments\<close> stores the segments as a JSON string; \<open>segments_json\<close> is that
  string.
\<close>

definition update_job_segments ::
  "db_env \<Rightarrow> string \<Rightarrow> string \<Rightarrow> string \<Rightarrow> string option \<Rightarrow>
     item list option \<Rightarrow> (py_exception + db_result) \<times> item list option" where
  "update_job_segments env user_id job_id segments_json new_status table =
     (case table of
        None \<Rightarrow> (Inr (Db_error ''DynamoDB not configured''), table)
      | Some rows \<Rightarrow>
          (case locate_video env table user_id job_id of
             Inl e \<Rightarrow> (Inl e, table)
           | Inr (Inl early) \<Rightarrow> (Inr early, table)
           | Inr (Inr (pk, sk)) \<Rightarrow>
               (case update_fails env of
                  Some err \<Rightarrow> (Inr (Db_error err), table)
                | None \<Rightarrow>
                    (Inr (Db_success job_id),
                     Some (update_item rows pk sk
                             ([(''draft_segments'', S segments_json),
                               (''updated_at'', S (utcnow env @ ''Z''))] @
                              opt_attr ''status'' new_status))))))"


section \<open>Job Registry (models.py, routes/video.py)\<close>

datatype JobStatus =
  PENDING | UPLOADING | ANALYZING | GENERATING_AUDIO | STITCHING | COMPLETE | FAILED

record LocalizationJob =
  job_id :: string
  status :: JobStatus
  progress :: int
  message :: string
  input_file :: string
  target_language :: string
  output_file :: "string option"
  error :: "string option"

text \<open>
  One assignment to a field of a job. The jobs are objects shared between the registry
  and the task that owns them, so an assignment is an update of the registry entry; the
  world keeps the sequence of all assignments, oldest first. \<open>Checkpoint\<close> is no
  assignment: it marks the end of a run of assignments that the code makes without
  calling a collaborator in between. A status poll is served only while the task is
  suspended in such a call, so the job is observed at checkpoints only.
\<close>

datatype job_event =
    Set_status JobStatus
  | Set_progress int
  | Set_message string
  | Set_error string
  | Set_output_file string
  | Checkpoint

definition apply_event :: "job_event \<Rightarrow> LocalizationJob \<Rightarrow> LocalizationJob" where
  "apply_event ev job =
     (case ev of
        Set_status s \<Rightarrow> job\<lparr>status := s\<rparr>
      | Set_progress p \<Rightarrow> job\<lparr>progress := p\<rparr>
      | Set_message m \<Rightarrow> job\<lparr>message := m\<rparr>
      | Set_error e \<Rightarrow> job\<lparr>error := Some e\<rparr>
      | Set_output_file f \<Rightarrow> job\<lparr>output_file := Some f\<rparr>
      | Checkpoint \<Rightarrow> job)"

text \<open>A value stored under a key of \<open>job_results[job_id]\<close>.\<close>

datatype result_value = Url "string option" | Size rat

text \<open>The arguments of a scheduled \<open>process_finalize_dubbing\<close> task.\<close>

record finalize_task =
  task_job_id :: string
  task_file_key :: string
  task_target_language :: string
  task_segments :: "approved_segment list"
  task_user_id :: "string option"

text \<open>
  The state the pipeline acts on: the in-memory registries, the history table, the
  object store (every \<open>upload_file\<close> call, and the keys stored), the files written, the
  compact-variant encodes attempted, the scheduled background tasks, and the log of job
  assignments.
\<close>

record world =
  jobs :: "LocalizationJob dict"
  job_results :: "(result_value dict) dict"
  table :: "item list option"
  upload_calls :: "(string \<times> string) list"
  s3_objects :: "string list"
  written_files :: "(string \<times> string) list"
  compact_calls :: "(string \<times> string \<times> rat) list"
  tasks :: "finalize_task list"
  events :: "(string \<times> job_event) list"

text \<open>
  The collaborators of the orchestrator. An S3 operation returns an error dictionary
  (\<open>Some msg\<close>) or succeeds; \<open>presign key\<close> is the \<open>download_url\<close> entry of the presign
  result, absent on error. \<open>temp_dir\<close> is the directory \<open>mkdtemp\<close> creates, \<open>vtt_write_error\<close>
  the exception of writing the subtitle file, \<open>segments_json\<close> is \<open>json.dumps\<close>.
\<close>

record collaborators =
  s3_download :: "string \<Rightarrow> string \<Rightarrow> string option"
  s3_upload :: "string \<Rightarrow> string \<Rightarrow> string option"
  presign :: "string \<Rightarrow> string option"
  tts :: tts_env
  ffmpeg :: ffmpeg_env
  db :: db_env
  temp_dir :: string
  vtt_write_error :: "string option"
  segments_json :: "approved_segment list \<Rightarrow> string"

definition assign :: "string \<Rightarrow> job_event \<Rightarrow> world \<Rightarrow> world" where
  "assign jid ev w =
     (case map_of (jobs w) jid of
        None \<Rightarrow> w
      | Some job \<Rightarrow>
          w\<lparr>jobs := dict_set (jobs w) jid (apply_event ev job),
            events := events w @ [(jid, ev)]\<rparr>)"

definition assign_all :: "string \<Rightarrow> job_event list \<Rightarrow> world \<Rightarrow> world" where
  "assign_all jid evs w = fold (assign jid) evs w"

text \<open>A run of assignments followed by a call: the assignments, then the checkpoint.\<close>

definition assigns :: "string \<Rightarrow> job_event list \<Rightarrow> world \<Rightarrow> world" where
  "assigns jid evs w = assign_all jid (evs @ [Checkpoint]) w"

definition upload_file :: "collaborators \<Rightarrow> string \<Rightarrow> string \<Rightarrow> world \<Rightarrow> string option \<times> world" where
  "upload_file env local_path s3_key w =
     (let w' = w\<lparr>upload_calls := upload_calls w @ [(local_path, s3_key)]\<rparr>
      in case s3_upload env local_path s3_key of
           Some err \<Rightarrow> (Some err, w')
         | None \<Rightarrow> (None, w'\<lparr>s3_objects := s3_objects w' @ [s3_key]\<rparr>))"

text \<open>
  \<open>if user_id:\<close> and \<open>if not job_id:\<close> test an optional string: \<open>None\<close> and the empty string
  are false. \<open>known_user\<close> gives the string when the test holds.
\<close>

definition known_user :: "string option \<Rightarrow> string option" where
  "known_user s = (case s of None \<Rightarrow> None | Some t \<Rightarrow> if t = '''' then None else Some t)"

subsection \<open>Status messages\<close>

text \<open>
  The messages are UTF-8; their emoji are written as bytes. \<open>fmt_1f\<close> is \<open>f"{x:.1f}"\<close> for
  a non-negative number.
\<close>

definition fmt_1f :: "rat \<Rightarrow> string" where
  "fmt_1f x =
     (let tenths = nat (round_half_even (x * 10))
      in str_nat (tenths div 10) @ ''.'' @ str_nat (tenths mod 10))"

definition check_mark :: string where
  "check_mark = [CHR 0xE2, CHR 0x9C, CHR 0x85]"

definition msg_downloading :: string where
  "msg_downloading = [CHR 0xF0, CHR 0x9F, CHR 0x93, CHR 0xA5] @ '' Downloading video from S3...''"

definition msg_downloaded :: string where
  "msg_downloaded = check_mark @ '' Video downloaded, generating audio...''"

definition msg_generating :: string where
  "msg_generating =
     [CHR 0xF0, CHR 0x9F, CHR 0x8E, CHR 0x99, CHR 0xEF, CHR 0xB8, CHR 0x8F] @
     '' Generating localized voice audio from your edits...''"

definition msg_generated :: "nat \<Rightarrow> string" where
  "msg_generated n = check_mark @ '' Generated '' @ str_nat n @ '' audio segments''"

definition msg_stitching :: string where
  "msg_stitching = [CHR 0xF0, CHR 0x9F, CHR 0x8E, CHR 0xAC] @ '' Stitching new audio with video...''"

definition msg_stitched :: "rat \<Rightarrow> string" where
  "msg_stitched size_mb = check_mark @ '' Video stitched! Size: '' @ fmt_1f size_mb @ ''MB''"

definition msg_whatsapp :: string where
  "msg_whatsapp =
     [CHR 0xF0, CHR 0x9F, CHR 0x93, CHR 0xB1] @ '' Creating WhatsApp-optimized version...''"

definition msg_uploading :: string where
  "msg_uploading =
     [CHR 0xE2, CHR 0x98, CHR 0x81, CHR 0xEF, CHR 0xB8, CHR 0x8F] @
     '' Uploading localized video to S3...''"

definition msg_complete :: string where
  "msg_complete =
     [CHR 0xF0, CHR 0x9F, CHR 0x8E, CHR 0x89] @ '' Localization complete! Your video is ready.''"

definition msg_failed :: "string \<Rightarrow> string" where
  "msg_failed e = [CHR 0xE2, CHR 0x9D, CHR 0x8C] @ '' Processing failed: '' @ e"


section \<open>Pipeline Orchestrator, Phase 2 (routes/video.py)\<close>

text \<open>
  The functions below follow \<open>process_finalize_dubbing\<close> block by block. A block returns
  the exception it raises (if any) and the new world. The temporary directory and its
  cleanup in \<open>finally\<close> are not part of the state.
\<close>

definition output_key_of :: "string \<Rightarrow> string \<Rightarrow> string" where
  "output_key_of jid lang = ''outputs/'' @ jid @ ''/localized_'' @ lang @ ''.mp4''"

definition whatsapp_key_of :: "string \<Rightarrow> string \<Rightarrow> string" where
  "whatsapp_key_of jid lang = ''outputs/'' @ jid @ ''/whatsapp_'' @ lang @ ''.mp4''"

definition subtitle_key_of :: "string \<Rightarrow> string" where
  "subtitle_key_of jid = ''subtitles/'' @ jid @ ''.vtt''"

text \<open>
  \<^verbatim>\<open>if user_id: db_service.update_job_status(user_id=user_id, job_id=job_id, ...)\<close>
  at the end of the \<open>try\<close> block and in the \<open>except\<close> handler: nothing for an unknown caller;
  otherwise the update, whose exception (if any) propagates.
\<close>

definition history_update ::
  "collaborators \<Rightarrow> string option \<Rightarrow> string \<Rightarrow> string \<Rightarrow> string option \<Rightarrow> string option \<Rightarrow>
     string option \<Rightarrow> world \<Rightarrow> py_exception option \<times> world" where
  "history_update env user_id jid new_status output_url output_s3_key subtitle_s3_key w =
     (case known_user user_id of
        None \<Rightarrow> (None, w)
      | Some uid \<Rightarrow>
          (case update_job_status (db env) uid jid new_status output_url output_s3_key
                  subtitle_s3_key (table w) of
             (Inl e, t) \<Rightarrow> (Some e, w\<lparr>table := t\<rparr>)
           | (Inr r, t) \<Rightarrow> (None, w\<lparr>table := t\<rparr>)))"

text \<open>
  Lines 415 to 422: the compact variant is uploaded when it was made and succeeded; the
  result is \<open>whatsapp_url\<close>.
\<close>

definition upload_whatsapp ::
  "collaborators \<Rightarrow> string \<Rightarrow> string \<Rightarrow> ProcessingResult option \<Rightarrow> world \<Rightarrow>
     string option \<times> world" where
  "upload_whatsapp env jid lang whatsapp_result w =
     (if (case whatsapp_result of None \<Rightarrow> False | Some r \<Rightarrow> success r)
      then
        (let up = upload_file env (path_join (temp_dir env) ''output_whatsapp.mp4'')
                    (whatsapp_key_of jid lang) w
         in (if fst up = None then presign env (whatsapp_key_of jid lang) else None, snd up))
      else (None, w))"

text \<open>Lines 435 to 441: \<open>job_results[job_id].update(...)\<close> when the job has results.\<close>

definition store_results ::
  "string \<Rightarrow> string option \<Rightarrow> string option \<Rightarrow> rat \<Rightarrow> world \<Rightarrow> world" where
  "store_results jid download_url whatsapp_url size_mb w =
     (case map_of (job_results w) jid of
        None \<Rightarrow> w
      | Some res \<Rightarrow>
          w\<lparr>job_results :=
               dict_set (job_results w) jid
                 (dict_set (dict_set (dict_set res ''output_url'' (Url download_url))
                              ''whatsapp_url'' (Url whatsapp_url))
                    ''file_size_mb'' (Size size_mb))\<rparr>)"

text \<open>
  Lines 446 to 474, best effort: the subtitle document is written and uploaded; an
  exception of the writing leaves \<open>subtitle_s3_key\<close> at \<open>None\<close>. The result of the upload
  is not looked at.
\<close>

definition write_subtitles ::
  "collaborators \<Rightarrow> string \<Rightarrow> approved_segment list \<Rightarrow> world \<Rightarrow> string option \<times> world" where
  "write_subtitles env jid approved_segments w =
     (let vtt_tmp_path = path_join (temp_dir env) (jid @ ''.vtt'')
      in case vtt_write_error env of
           Some err \<Rightarrow> (None, w)
         | None \<Rightarrow>
             (Some (subtitle_key_of jid),
              snd (upload_file env vtt_tmp_path (subtitle_key_of jid)
                     (w\<lparr>written_files :=
                          written_files w @ [(vtt_tmp_path, vtt_content approved_segments)]\<rparr>))))"

text \<open>
  Lines 415 to 485: upload of the compact variant, the download URL, the COMPLETE state,
  the job results, the subtitles, and the history update
  \<^verbatim>\<open>db_service.update_job_status(user_id=user_id, job_id=job_id, status="complete",\<close>
  \<^verbatim>\<open>    output_url=download_result.get("download_url"), output_s3_key=output_key,\<close>
  \<^verbatim>\<open>    subtitle_s3_key=subtitle_s3_key)\<close>
\<close>

definition finalize_complete ::
  "collaborators \<Rightarrow> string \<Rightarrow> string \<Rightarrow> approved_segment list \<Rightarrow> string option \<Rightarrow>
     ProcessingResult \<Rightarrow> ProcessingResult option \<Rightarrow> world \<Rightarrow> py_exception option \<times> world" where
  "finalize_complete env jid lang approved_segments user_id stitch_result whatsapp_result w =
     (let output_key = output_key_of jid lang;
          whatsapp = upload_whatsapp env jid lang whatsapp_result w;
          download_url = presign env output_key;
          w2 = assigns jid
                 [Set_status COMPLETE, Set_progress 100, Set_output_file output_key,
                  Set_message msg_complete] (snd whatsapp);
          w3 = store_results jid download_url (fst whatsapp) (file_size_mb stitch_result) w2;
          sub = write_subtitles env jid approved_segments w3
      in history_update env user_id jid ''complete'' download_url (Some output_key) (fst sub)
           (snd sub))"

text \<open>
  Lines 387 to 413: a failed stitch raises; otherwise the compact variant is made when
  the primary output is larger than 15 MB, and the primary output is uploaded.
\<close>

definition finalize_after_stitch ::
  "collaborators \<Rightarrow> string \<Rightarrow> string \<Rightarrow> approved_segment list \<Rightarrow> string option \<Rightarrow>
     ProcessingResult \<Rightarrow> world \<Rightarrow> py_exception option \<times> world" where
  "finalize_after_stitch env jid lang approved_segments user_id stitch_result w =
     (if \<not> success stitch_result
      then (Some (Exception (''Video stitching failed: '' @
                    (case pr_error stitch_result of None \<Rightarrow> ''None'' | Some e \<Rightarrow> e))), w)
      else
        (let output_video_path = path_join (temp_dir env) ''output_localized.mp4'';
             whatsapp_video_path = path_join (temp_dir env) ''output_whatsapp.mp4'';
             w1 = assigns jid
                    [Set_progress 80, Set_message (msg_stitched (file_size_mb stitch_result))] w;
             attempt = (15 < file_size_mb stitch_result);
             whatsapp_result =
               (if attempt
                then Some (create_whatsapp_version (ffmpeg env) output_video_path
                             whatsapp_video_path (29 / 2))
                else None);
             w2 = (if attempt
                   then (assigns jid [Set_message msg_whatsapp] w1)
                          \<lparr>compact_calls :=
                             compact_calls w1 @ [(output_video_path, whatsapp_video_path, 29 / 2)]\<rparr>
                   else w1);
             w3 = assigns jid [Set_progress 90, Set_message msg_uploading] w2;
             up = upload_file env output_video_path (output_key_of jid lang) w3
         in case fst up of
              Some err \<Rightarrow> (Some (Exception (''Upload failed: '' @ err)), snd up)
            | None \<Rightarrow>
                finalize_complete env jid lang approved_segments user_id stitch_result
                  whatsapp_result (snd up)))"

text \<open>The conversion of the approved segments to the form the coordinator expects.\<close>

definition to_tts_segment :: "approved_segment \<Rightarrow> tts_segment" where
  "to_tts_segment seg =
     \<lparr>tts_start_time = Some (Seconds (case seg_start seg of None \<Rightarrow> 0 | Some x \<Rightarrow> x)),
      tts_end_time = Some (Seconds (case seg_end seg of None \<Rightarrow> 0 | Some x \<Rightarrow> x)),
      tts_translated_text = Some (case seg_translated_text seg of None \<Rightarrow> '''' | Some t \<Rightarrow> t),
      tts_original_text = Some (case seg_original_text seg of None \<Rightarrow> '''' | Some t \<Rightarrow> t)\<rparr>"

definition to_audio_dict :: "AudioSegment \<Rightarrow> audio_segment_dict" where
  "to_audio_dict seg =
     \<lparr>dict_file_path = audio_file_path seg, dict_start_time = audio_start_time seg,
      dict_end_time = audio_end_time seg\<rparr>"

text \<open>
  \<^verbatim>\<open>tts_delay = 0.0\<close>
  \<^verbatim>\<open>if approved_segments: tts_delay = approved_segments[0].get("start", 0.0)\<close>
\<close>

definition tts_delay_of :: "approved_segment list \<Rightarrow> rat" where
  "tts_delay_of approved_segments =
     (case approved_segments of
        [] \<Rightarrow> 0
      | first_seg # rest \<Rightarrow> (case seg_start first_seg of None \<Rightarrow> 0 | Some x \<Rightarrow> x))"

text \<open>
  The call at lines 379 to 385,
  \<^verbatim>\<open>ffmpeg_service.stitch_video(original_video_path=local_video_path,\<close>
  \<^verbatim>\<open>    audio_segments=audio_segment_dicts, output_path=output_video_path,\<close>
  \<^verbatim>\<open>    optimize_for_mobile=True, tts_delay_seconds=tts_delay)\<close>
  binds its five keywords to the parameters of \<open>stitch_video\<close> first. The delay has no
  parameter to be bound to, and \<open>stitch_video\<close> has no use for it.
\<close>

definition call_stitch_video ::
  "ffmpeg_env \<Rightarrow> string \<Rightarrow> audio_segment_dict list \<Rightarrow> string \<Rightarrow> bool \<Rightarrow> rat \<Rightarrow>
     py_exception + ProcessingResult" where
  "call_stitch_video env original_video_path audio_segments out optimize_for_mobile
     tts_delay_seconds =
     (case unexpected_keyword ''stitch_video'' stitch_video_params
             [''original_video_path'', ''audio_segments'', ''output_path'',
              ''optimize_for_mobile'', ''tts_delay_seconds''] of
        Some e \<Rightarrow> Inl e
      | None \<Rightarrow> Inr (stitch_video env original_video_path audio_segments out optimize_for_mobile))"

text \<open>The \<open>try\<close> block of \<open>process_finalize_dubbing\<close>, steps 1 to 3 and then the rest.\<close>

definition finalize_try ::
  "collaborators \<Rightarrow> string \<Rightarrow> string \<Rightarrow> string \<Rightarrow> approved_segment list \<Rightarrow> string option \<Rightarrow>
     world \<Rightarrow> py_exception option \<times> world" where
  "finalize_try env jid file_key lang approved_segments user_id w =
     (let local_video_path = path_join (temp_dir env) ''input_video.mp4'';
          output_video_path = path_join (temp_dir env) ''output_localized.mp4'';
          w1 = assigns jid [Set_status UPLOADING, Set_progress 5, Set_message msg_downloading] w
      in case s3_download env file_key local_video_path of
           Some err \<Rightarrow> (Some (Exception (''Download failed: '' @ err)), w1)
         | None \<Rightarrow>
             (let w2 = assigns jid
                         [Set_progress 15, Set_message msg_downloaded,
                          Set_status GENERATING_AUDIO, Set_progress 20,
                          Set_message msg_generating] w1;
                  audio_segments =
                    generate_segments_from_analysis (tts env)
                      (path_join (temp_dir env) ''audio_segments'')
                      (map to_tts_segment approved_segments) lang ''female'';
                  w3 = assigns jid
                         [Set_progress 50, Set_message (msg_generated (length audio_segments)),
                          Set_status STITCHING, Set_progress 55, Set_message msg_stitching] w2
              in case call_stitch_video (ffmpeg env) local_video_path
                        (map to_audio_dict audio_segments) output_video_path True
                        (tts_delay_of approved_segments) of
                   Inl e \<Rightarrow> (Some e, w3)
                 | Inr stitch_result \<Rightarrow>
                     finalize_after_stitch env jid lang approved_segments user_id
                       stitch_result w3))"

text \<open>
  \<open>process_finalize_dubbing\<close>: returns at once when the job is unknown; an exception of
  the \<open>try\<close> block is handled by marking the job FAILED and, for a known caller, updating
  the history to \<open>failed\<close>. An exception of that update leaves the task uncaught.
\<close>

definition process_finalize_dubbing ::
  "collaborators \<Rightarrow> string \<Rightarrow> string \<Rightarrow> string \<Rightarrow> approved_segment list \<Rightarrow> string option \<Rightarrow>
     world \<Rightarrow> py_exception option \<times> world" where
  "process_finalize_dubbing env jid file_key lang approved_segments user_id w =
     (case map_of (jobs w) jid of
        None \<Rightarrow> (None, w)
      | Some job \<Rightarrow>
          (case finalize_try env jid file_key lang approved_segments user_id w of
             (None, w1) \<Rightarrow> (None, w1)
           | (Some e, w1) \<Rightarrow>
               history_update env user_id jid ''failed'' None None None
                 (assigns jid
                    [Set_status FAILED, Set_error (str_exception e),
                     Set_message (msg_failed (str_exception e))] w1)))"

text \<open>
  The request body of \<open>finalize\<close>: \<open>None\<close> is a missing (or null) entry. The caller is
  the \<open>sub\<close> entry of the verified token.
\<close>

record finalize_request =
  req_job_id :: "string option"
  req_approved_segments :: "approved_segment list option"

datatype endpoint_error = HTTPException nat string | Unhandled py_exception

record finalize_ack =
  ack_job_id :: string
  ack_status :: string
  ack_message :: string

text \<open>
  \<open>finalize_dubbing\<close>: the four checks raise HTTPException before anything is changed;
  then the job is reset, the segments are stored for a known caller, and the
  background task is scheduled.
\<close>

definition finalize_dubbing ::
  "collaborators \<Rightarrow> finalize_request \<Rightarrow> string option \<Rightarrow> world \<Rightarrow>
     (endpoint_error + finalize_ack) \<times> world" where
  "finalize_dubbing env request user_sub w =
     (let approved_segments = (case req_approved_segments request of None \<Rightarrow> [] | Some segs \<Rightarrow> segs)
      in case known_user (req_job_id request) of
           None \<Rightarrow> (Inl (HTTPException 400 ''job_id is required''), w)
         | Some jid \<Rightarrow>
             if approved_segments = []
             then (Inl (HTTPException 400 ''approved_segments is required''), w)
             else
               (case map_of (jobs w) jid of
                  None \<Rightarrow> (Inl (HTTPException 404 ''Job not found''), w)
                | Some original_job \<Rightarrow>
                    if \<not> ffmpeg_available (ffmpeg env)
                    then (Inl (HTTPException 503
                                ''FFmpeg not installed. Please install FFmpeg to process videos.''), w)
                    else
                      (let w1 = assigns jid
                                  [Set_status PENDING, Set_progress 0,
                                   Set_message ''Starting final dubbing with your edits...''] w;
                           stored =
                             (case known_user user_sub of
                                None \<Rightarrow> (None, w1)
                              | Some uid \<Rightarrow>
                                  (case update_job_segments (db env) uid jid
                                          (segments_json env approved_segments)
                                          (Some ''processing'') (table w1) of
                                     (Inl e, t) \<Rightarrow> (Some e, w1\<lparr>table := t\<rparr>)
                                   | (Inr r, t) \<Rightarrow> (None, w1\<lparr>table := t\<rparr>)))
                       in case fst stored of
                            Some e \<Rightarrow> (Inl (Unhandled e), snd stored)
                          | None \<Rightarrow>
                              (Inr \<lparr>ack_job_id = jid, ack_status = ''finalizing'',
                                    ack_message =
                                      ''Dubbing started with your approved segments. Poll /api/video/job/{job_id} for status.''\<rparr>,
                               (snd stored)
                                 \<lparr>tasks :=
                                    tasks (snd stored) @
                                      [\<lparr>task_job_id = jid, task_file_key = input_file original_job,
                                        task_target_language = target_language original_job,
                                        task_segments = approved_segments,
                                        task_user_id = user_sub\<rparr>]\<rparr>))))"



section \<open>Example inputs\<close>

text \<open>
  A job left by Phase 1 for caller \<open>u1\<close>, its history item as \<open>save_video\<close> writes it, and
  collaborators that all succeed. The first approved segment starts at 3.2 s.
\<close>

definition example_tts :: tts_env where
  "example_tts = \<lparr>communicate_save = (\<lambda>voice txt p. None), audio_duration = (\<lambda>p. 1000)\<rparr>"

definition example_ffmpeg :: ffmpeg_env where
  "example_ffmpeg =
     \<lparr>ffmpeg_available = True, probe = (\<lambda>p. Inr (120, 20)),
      stitch_temp_dir = ''/tmp/nativity_stitch_x'',
      concat_run = (\<lambda>files out. None), merge_run = (\<lambda>v a out opts. None),
      whatsapp_run = (\<lambda>inp out rate. None)\<rparr>"

definition example_db :: db_env where
  "example_db = \<lparr>query_fails = False, update_fails = None, utcnow = ''2026-01-01T10:00:00''\<rparr>"

definition example_env :: collaborators where
  "example_env =
     \<lparr>s3_download = (\<lambda>k p. None), s3_upload = (\<lambda>p k. None),
      presign = (\<lambda>k. Some (''https://s3/'' @ k)),
      tts = example_tts, ffmpeg = example_ffmpeg, db = example_db,
      temp_dir = ''/tmp/nativity_final_j1'', vtt_write_error = None,
      segments_json = (\<lambda>segs. ''[...]'')\<rparr>"

definition example_job :: LocalizationJob where
  "example_job =
     \<lparr>job_id = ''j1'', status = COMPLETE, progress = 100, message = ''Draft ready'',
      input_file = ''uploads/a.mp4'', target_language = ''hindi'', output_file = None,
      error = None\<rparr>"

definition example_item :: item where
  "example_item =
     [(''PK'', S ''USER#u1''), (''SK'', S ''VIDEO#2026-01-01T09:00:00Z''), (''job_id'', S ''j1''),
      (''user_id'', S ''u1''), (''target_language'', S ''hindi''),
      (''input_file'', S ''uploads/a.mp4''), (''status'', S ''needs_review''),
      (''created_at'', S ''2026-01-01T09:00:00Z''), (''segments_count'', N 2)]"

definition example_world :: world where
  "example_world =
     \<lparr>jobs = [(''j1'', example_job)], job_results = [], table = Some [example_item],
      upload_calls = [], s3_objects = [''uploads/a.mp4''], written_files = [],
      compact_calls = [], tasks = [], events = []\<rparr>"

definition example_segments :: "approved_segment list" where
  "example_segments =
     [\<lparr>seg_start = Some (16 / 5), seg_end = Some 5,
       seg_translated_text = Some ''A'', seg_original_text = Some ''a''\<rparr>,
      \<lparr>seg_start = Some 5, seg_end = Some 9,
       seg_translated_text = Some ''B'', seg_original_text = Some ''b''\<rparr>]"


text \<open>The same collaborators, except that the compact-variant encode fails.\<close>

definition example_env_compact_fails :: collaborators where
  "example_env_compact_fails =
     example_env\<lparr>ffmpeg := example_ffmpeg\<lparr>whatsapp_run := (\<lambda>inp out rate. Some ''encode failed'')\<rparr>\<rparr>"

definition example_stitch_result :: ProcessingResult where
  "example_stitch_result =
     \<lparr>success = True, output_path = Some ''/tmp/nativity_final_j1/output_localized.mp4'',
      file_size_mb = 20, duration_seconds = 120, pr_error = None\<rparr>"


section \<open>Progress of a phase\<close>






section \<open>Theorems\<close>

subsection \<open>Helper facts\<close>




subsection \<open>C4: compact-variant bitrate\<close>




subsection \<open>C10: voice selection is total\<close>



subsection \<open>C7: bounded retry with doubling delay\<close>

lemma retry_loop_skip:
  "(\<And>i. a \<le> i \<Longrightarrow> i < a + k \<Longrightarrow> transient_failure (api i)) \<Longrightarrow>
   a + k \<le> MAX_RETRIES - 1 \<Longrightarrow>
   retry_loop api [a..<MAX_RETRIES] slept =
     retry_loop api [a + k..<MAX_RETRIES]
       (slept @ map (\<lambda>i. INITIAL_RETRY_DELAY_SECONDS * 2 ^ i) [a..<a + k])"
proof (induction k arbitrary: a slept)
  case 0
  then show ?case by simp
next
  case (Suc k)
  have lt: "a < MAX_RETRIES - 1" using Suc.prems(2) by simp
  then have cons: "[a..<MAX_RETRIES] = a # [Suc a..<MAX_RETRIES]"
    by (simp add: upt_conv_Cons)
  have "transient_failure (api a)" using Suc.prems(1) [of a] by simp
  then obtain e where e: "api a = Raised e" "is_transient e"
    by (auto simp: transient_failure_def split: attempt_outcome.splits)
  have step: "retry_loop api [a..<MAX_RETRIES] slept =
        retry_loop api [Suc a..<MAX_RETRIES] (slept @ [INITIAL_RETRY_DELAY_SECONDS * 2 ^ a])"
    using e lt by (simp add: cons)
  have ih: "retry_loop api [Suc a..<MAX_RETRIES] (slept @ [INITIAL_RETRY_DELAY_SECONDS * 2 ^ a]) =
        retry_loop api [Suc a + k..<MAX_RETRIES]
          ((slept @ [INITIAL_RETRY_DELAY_SECONDS * 2 ^ a]) @
             map (\<lambda>i. INITIAL_RETRY_DELAY_SECONDS * 2 ^ i) [Suc a..<Suc a + k])"
    using Suc.prems by (intro Suc.IH) auto
  have "[a..<a + Suc k] = a # [Suc a..<Suc a + k]"
    by (simp add: upt_conv_Cons)
  then show ?case using step ih by simp
qed

lemma generate_with_retry_prefix:
  assumes "\<And>i. i < k \<Longrightarrow> transient_failure (api i)" and "k \<le> MAX_RETRIES - 1"
  shows "generate_with_retry api = retry_loop api [k..<MAX_RETRIES] (backoff_delays k)"
  using retry_loop_skip [of 0 k api "[]"] assms
  by (simp add: generate_with_retry_def backoff_delays_def)

text \<open>
  C7. Let the first \<open>k\<close> attempts fail with transient errors. If \<open>k\<close> is below the cap and
  attempt \<open>k\<close> responds, the response is returned after sleeping
  \<open>base * 2 ^ i\<close> seconds after each failed attempt \<open>i < k\<close>. If attempt \<open>k\<close> raises an error
  that is not transient, that error propagates at once, with no further sleep or call.
  If all \<open>MAX_RETRIES\<close> attempts fail with transient errors, the quota error is returned
  as a result (nothing is raised), after \<open>MAX_RETRIES - 1\<close> sleeps.
\<close>

theorem generate_with_retry_policy:
  "(\<forall>i < k. transient_failure (api i)) \<longrightarrow>
     (k < MAX_RETRIES \<and> api k = Responded r \<longrightarrow>
        generate_with_retry api = (Inr (Inr r), backoff_delays k)) \<and>
     (k < MAX_RETRIES \<and> api k = Raised e \<and> \<not> is_transient e \<longrightarrow>
        generate_with_retry api = (Inl (Exception e), backoff_delays k)) \<and>
     (k = MAX_RETRIES \<longrightarrow>
        generate_with_retry api =
          (Inr (Inl ''API quota exceeded after multiple retries. Please wait and try again.''),
           backoff_delays (MAX_RETRIES - 1)))"
proof (intro impI conjI)
  assume tr: "\<forall>i < k. transient_failure (api i)"
  {
    assume h: "k < MAX_RETRIES \<and> api k = Responded r"
    then have cons: "[k..<MAX_RETRIES] = k # [Suc k..<MAX_RETRIES]"
      by (simp add: upt_conv_Cons)
    have "generate_with_retry api = retry_loop api [k..<MAX_RETRIES] (backoff_delays k)"
      using tr h by (intro generate_with_retry_prefix) auto
    then show "generate_with_retry api = (Inr (Inr r), backoff_delays k)"
      using h by (simp add: cons)
  }
  {
    assume h: "k < MAX_RETRIES \<and> api k = Raised e \<and> \<not> is_transient e"
    then have cons: "[k..<MAX_RETRIES] = k # [Suc k..<MAX_RETRIES]"
      by (simp add: upt_conv_Cons)
    have "generate_with_retry api = retry_loop api [k..<MAX_RETRIES] (backoff_delays k)"
      using tr h by (intro generate_with_retry_prefix) auto
    then show "generate_with_retry api = (Inl (Exception e), backoff_delays k)"
      using h by (simp add: cons)
  }
  {
    assume h: "k = MAX_RETRIES"
    have last: "[MAX_RETRIES - Suc 0..<MAX_RETRIES] = [MAX_RETRIES - Suc 0]"
      by (simp add: MAX_RETRIES_def)
    have "transient_failure (api (MAX_RETRIES - 1))"
      using tr h by (simp add: MAX_RETRIES_def)
    then obtain e' where e': "api (MAX_RETRIES - 1) = Raised e'" "is_transient e'"
      by (auto simp: transient_failure_def split: attempt_outcome.splits)
    have "generate_with_retry api =
            retry_loop api [MAX_RETRIES - 1..<MAX_RETRIES] (backoff_delays (MAX_RETRIES - 1))"
      using tr h by (intro generate_with_retry_prefix) auto
    then show "generate_with_retry api =
          (Inr (Inl ''API quota exceeded after multiple retries. Please wait and try again.''),
           backoff_delays (MAX_RETRIES - 1))"
      using e' by (simp add: last)
  }
qed

lemma is_transient_examples:
  "is_transient ''429''" "is_transient ''Quota''" "is_transient ''503''" "\<not> is_transient ''boom''"
  by code_simp+

lemma backoff_delays_examples:
  "backoff_delays 1 = [5]" "backoff_delays 2 = [5, 10]"
  "backoff_delays (MAX_RETRIES - 1) = [5, 10, 20, 40, 80, 160, 320, 640, 1280]"
  by (simp_all add: backoff_delays_def INITIAL_RETRY_DELAY_SECONDS_def MAX_RETRIES_def upt_rec)

theorem generate_with_retry_policy_witness:
  "generate_with_retry (\<lambda>i. if i < 2 then Raised ''429'' else Responded ''ok'') =
     (Inr (Inr ''ok''), [5, 10]) \<and>
   generate_with_retry (\<lambda>i. if i < 1 then Raised ''Quota'' else (Raised ''boom'' :: string attempt_outcome)) =
     (Inl (Exception ''boom''), [5]) \<and>
   generate_with_retry (\<lambda>i. (Raised ''503'' :: string attempt_outcome)) =
     (Inr (Inl ''API quota exceeded after multiple retries. Please wait and try again.''),
      [5, 10, 20, 40, 80, 160, 320, 640, 1280])"
proof -
  let ?a = "\<lambda>i::nat. if i < 2 then Raised ''429'' else Responded ''ok''"
  let ?b = "\<lambda>i::nat. if i < 1 then Raised ''Quota'' else (Raised ''boom'' :: string attempt_outcome)"
  let ?c = "\<lambda>i::nat. (Raised ''503'' :: string attempt_outcome)"
  have a: "generate_with_retry ?a = (Inr (Inr ''ok''), backoff_delays 2)"
    using generate_with_retry_policy [of 2 ?a "''ok''" "''''"]
    by (simp add: transient_failure_def is_transient_examples MAX_RETRIES_def)
  have b: "generate_with_retry ?b = (Inl (Exception ''boom''), backoff_delays 1)"
    using generate_with_retry_policy [of 1 ?b "''''" "''boom''"]
    by (simp add: transient_failure_def is_transient_examples MAX_RETRIES_def)
  have c: "generate_with_retry ?c =
      (Inr (Inl ''API quota exceeded after multiple retries. Please wait and try again.''),
       backoff_delays (MAX_RETRIES - 1))"
    using generate_with_retry_policy [of MAX_RETRIES ?c "''''" "''''"]
    by (simp add: transient_failure_def is_transient_examples)
  show ?thesis
    using a b c by (simp only: backoff_delays_examples)
qed


subsection \<open>C2: speech synthesis coordination\<close>

lemma segments_loop_map_filter:
  "segments_loop env output_dir language gender ps acc =
     acc @ List.map_filter (segment_audio env output_dir language gender) ps"
proof (induction ps arbitrary: acc)
  case Nil
  then show ?case by (simp add: List.map_filter_simps)
next
  case (Cons p ps)
  obtain i segment where p: "p = (i, segment)" by (cases p)
  show ?case
    unfolding p
    by (simp add: Cons.IH List.map_filter_simps segment_audio_def Let_def
        split: audio_result.splits option.splits)
qed

text \<open>
  C2 as stated fails where a segment's synthesis fails: the call does not abort, it
  returns normally and the failed segment is dropped. Here the synthesis of the first
  segment (text A) fails and the result is the audio of the second segment alone.
\<close>

theorem generate_segments_counterexample:
  "synthesis_fails
     \<lparr>communicate_save = (\<lambda>voice txt p. if txt = ''A'' then Some ''No audio was received'' else None),
      audio_duration = (\<lambda>p. 0)\<rparr> ''/tmp/audio'' ''hindi'' ''female'' 0 ''A'' \<and>
   generate_segments_from_analysis
     \<lparr>communicate_save = (\<lambda>voice txt p. if txt = ''A'' then Some ''No audio was received'' else None),
      audio_duration = (\<lambda>p. 0)\<rparr>
     ''/tmp/audio''
     [\<lparr>tts_start_time = Some (Seconds 2), tts_end_time = Some (Seconds 5),
       tts_translated_text = Some ''A'', tts_original_text = Some ''a''\<rparr>,
      \<lparr>tts_start_time = Some (Seconds 5), tts_end_time = Some (Seconds 9),
       tts_translated_text = Some ''B'', tts_original_text = Some ''b''\<rparr>]
     ''hindi'' ''female'' =
   [\<lparr>audio_text = ''B'', audio_file_path = ''/tmp/audio/segment_0001.mp3'',
     audio_start_time = Seconds 5, audio_end_time = Seconds 9,
     audio_duration_ms = 0, audio_language = ''hindi''\<rparr>]"
  by code_simp

text \<open>
  C2 (amended). For every input segment list the coordinator returns normally, with the
  audio resources in the order of the input segments: one for each segment whose
  translated text is non-empty and whose synthesis succeeds. Segments with empty text
  and segments whose synthesis fails are both skipped without an error; a failure of one
  segment does not abort the call.
\<close>

theorem generate_segments_from_analysis_result:
  "generate_segments_from_analysis env output_dir segments language gender =
     List.map_filter (segment_audio env output_dir language gender) (enumerate 0 segments) \<and>
   map audio_text (generate_segments_from_analysis env output_dir segments language gender) =
     map (\<lambda>p. case tts_translated_text (snd p) of None \<Rightarrow> '''' | Some t \<Rightarrow> t)
       (filter (\<lambda>p. (case tts_translated_text (snd p) of None \<Rightarrow> '''' | Some t \<Rightarrow> t) \<noteq> '''' \<and>
                     \<not> synthesis_fails env output_dir language gender (fst p)
                         (case tts_translated_text (snd p) of None \<Rightarrow> '''' | Some t \<Rightarrow> t))
          (enumerate 0 segments))"
proof -
  have a: "generate_segments_from_analysis env output_dir segments language gender =
     List.map_filter (segment_audio env output_dir language gender) (enumerate 0 segments)"
    by (simp add: generate_segments_from_analysis_def segments_loop_map_filter)
  have b: "map audio_text (List.map_filter (segment_audio env output_dir language gender) ps) =
     map (\<lambda>p. case tts_translated_text (snd p) of None \<Rightarrow> '''' | Some t \<Rightarrow> t)
       (filter (\<lambda>p. (case tts_translated_text (snd p) of None \<Rightarrow> '''' | Some t \<Rightarrow> t) \<noteq> '''' \<and>
                     \<not> synthesis_fails env output_dir language gender (fst p)
                         (case tts_translated_text (snd p) of None \<Rightarrow> '''' | Some t \<Rightarrow> t))
          ps)" for ps
    by (induction ps)
      (auto simp: List.map_filter_simps segment_audio_def synthesis_fails_def Let_def
        split: audio_result.splits option.splits)
  show ?thesis unfolding a using b by simp
qed


subsection \<open>C5: numbering of caption blocks\<close>

lemma vtt_loop_blocks:
  "vtt_loop ps acc =
     acc @ concat (map (\<lambda>p. vtt_block (fst p + 1) (snd p))
                    (filter (\<lambda>p. caption_text (snd p) \<noteq> '''') ps))"
proof (induction ps arbitrary: acc)
  case Nil
  then show ?case by simp
next
  case (Cons p ps)
  obtain idx seg where p: "p = (idx, seg)" by (cases p)
  show ?case
    unfolding p by (simp add: Cons.IH vtt_block_def Let_def)
qed

lemma str_strip_examples:
  "str_strip '' A  '' = ''A''"
  "str_strip [CHR 0xC2, CHR 0xA0] = []"
  "str_strip ([CHR 0xE3, CHR 0x80, CHR 0x80, CHR 0x09] @ ''B c'' @
              [CHR 0xE2, CHR 0x80, CHR 0xA8, CHR 0xC2, CHR 0x85]) = ''B c''"
  "str_strip [CHR 0xC2, CHR 0xA9] = [CHR 0xC2, CHR 0xA9]"
  by code_simp+

lemma caption_text_nbsp:
  "caption_text \<lparr>seg_start = Some 0, seg_end = Some 1,
      seg_translated_text = Some [CHR 0xC2, CHR 0xA0], seg_original_text = Some ''x''\<rparr> = []"
  by code_simp

text \<open>
  C5 as stated fails: a skipped segment does consume a block number. With three
  segments of which the second has whitespace-only text, the two caption blocks are
  numbered 1 and 3, not 1 and 2.
\<close>

theorem vtt_lines_counterexample:
  "vtt_lines
     [\<lparr>seg_start = Some 2, seg_end = Some 5,
       seg_translated_text = Some ''A'', seg_original_text = Some ''a''\<rparr>,
      \<lparr>seg_start = Some 5, seg_end = Some 5,
       seg_translated_text = Some ''  '', seg_original_text = Some ''x''\<rparr>,
      \<lparr>seg_start = Some 5, seg_end = Some 9,
       seg_translated_text = Some ''B'', seg_original_text = Some ''b''\<rparr>] =
   [''WEBVTT'', '''',
    ''1'', ''00:00:02.000 --> 00:00:05.000'', ''A'', '''',
    ''3'', ''00:00:05.000 --> 00:00:09.000'', ''B'', '''']"
  by code_simp

text \<open>
  C5 (amended). In the generated subtitle document, for every approved-segment list,
  segments whose translated text is empty or whitespace-only are excluded: they produce
  no caption block. Each emitted block is numbered with the 1-based position of its
  segment in the approved-segment list, so the numbers increase with the input order
  and skip the positions of the excluded segments.
\<close>

theorem vtt_lines_blocks:
  "vtt_lines approved_segments =
     [''WEBVTT'', ''''] @
     concat (map (\<lambda>p. vtt_block (fst p + 1) (snd p))
               (filter (\<lambda>p. caption_text (snd p) \<noteq> '''') (enumerate 0 approved_segments)))"
  by (simp add: vtt_lines_def vtt_loop_blocks)


subsection \<open>Facts about the world operations\<close>

lemma map_of_dict_set: "map_of (dict_set d k v) = (map_of d)(k \<mapsto> v)"
  by (induction d) (auto simp: fun_eq_iff)

lemma assign_fields [simp]:
  "table (assign jid ev w) = table w"
  "job_results (assign jid ev w) = job_results w"
  "upload_calls (assign jid ev w) = upload_calls w"
  "s3_objects (assign jid ev w) = s3_objects w"
  "written_files (assign jid ev w) = written_files w"
  "compact_calls (assign jid ev w) = compact_calls w"
  "tasks (assign jid ev w) = tasks w"
  by (simp_all add: assign_def split: option.splits)

lemma assign_job:
  "map_of (jobs (assign jid ev w)) k =
     (if k = jid then map_option (apply_event ev) (map_of (jobs w) jid) else map_of (jobs w) k)"
  by (simp add: assign_def map_of_dict_set split: option.splits)


lemma assign_all_Nil [simp]: "assign_all jid [] w = w"
  by (simp add: assign_all_def)

lemma assign_all_Cons: "assign_all jid (ev # evs) w = assign_all jid evs (assign jid ev w)"
  by (simp add: assign_all_def)

lemma assign_all_fields [simp]:
  "table (assign_all jid evs w) = table w"
  "job_results (assign_all jid evs w) = job_results w"
  "upload_calls (assign_all jid evs w) = upload_calls w"
  "s3_objects (assign_all jid evs w) = s3_objects w"
  "written_files (assign_all jid evs w) = written_files w"
  "compact_calls (assign_all jid evs w) = compact_calls w"
  "tasks (assign_all jid evs w) = tasks w"
  by (induction evs arbitrary: w; simp add: assign_all_Cons)+

lemma assign_all_job:
  "map_of (jobs (assign_all jid evs w)) jid =
     map_option (fold apply_event evs) (map_of (jobs w) jid)"
proof (induction evs arbitrary: w)
  case Nil
  then show ?case by (simp add: option.map_ident)
next
  case (Cons ev evs)
  show ?case
    by (simp add: assign_all_Cons Cons.IH assign_job option.map_comp comp_def)
qed


lemma assigns_fields [simp]:
  "table (assigns jid evs w) = table w"
  "job_results (assigns jid evs w) = job_results w"
  "upload_calls (assigns jid evs w) = upload_calls w"
  "s3_objects (assigns jid evs w) = s3_objects w"
  "written_files (assigns jid evs w) = written_files w"
  "compact_calls (assigns jid evs w) = compact_calls w"
  "tasks (assigns jid evs w) = tasks w"
  by (simp_all add: assigns_def)

lemma assigns_job:
  "map_of (jobs (assigns jid evs w)) jid = map_option (fold apply_event evs) (map_of (jobs w) jid)"
proof -
  have "fold apply_event (evs @ [Checkpoint]) = fold apply_event evs"
    by (simp add: fun_eq_iff apply_event_def)
  then show ?thesis by (simp add: assigns_def assign_all_job)
qed


lemma upload_file_fields [simp]:
  "table (snd (upload_file env p k w)) = table w"
  "jobs (snd (upload_file env p k w)) = jobs w"
  "job_results (snd (upload_file env p k w)) = job_results w"
  "events (snd (upload_file env p k w)) = events w"
  "written_files (snd (upload_file env p k w)) = written_files w"
  "compact_calls (snd (upload_file env p k w)) = compact_calls w"
  "tasks (snd (upload_file env p k w)) = tasks w"
  "upload_calls (snd (upload_file env p k w)) = upload_calls w @ [(p, k)]"
  "fst (upload_file env p k w) = s3_upload env p k"
  by (simp_all add: upload_file_def Let_def split: option.splits)

subsection \<open>C6: validation of the finalize request\<close>

text \<open>
  C6. A finalize request whose job id is missing or whose approved-segment list is
  missing or empty is rejected with HTTP 400 and the world is unchanged: no job field,
  no stored segment and no scheduled task differs. A request with a job id and a
  non-empty list for a job that the registry does not hold is rejected with HTTP 404,
  again with the world unchanged.
\<close>

theorem finalize_dubbing_rejects:
  "(known_user (req_job_id request) = None \<or> req_approved_segments request = None \<or>
    req_approved_segments request = Some []
      \<longrightarrow> (\<exists>detail. finalize_dubbing env request user_sub w =
                         (Inl (HTTPException 400 detail), w))) \<and>
   (known_user (req_job_id request) = Some jid \<and> req_approved_segments request = Some segs \<and>
    segs \<noteq> [] \<and> map_of (jobs w) jid = None
      \<longrightarrow> finalize_dubbing env request user_sub w =
            (Inl (HTTPException 404 ''Job not found''), w))"
  by (auto simp: finalize_dubbing_def Let_def split: option.splits)

theorem finalize_dubbing_rejects_witness:
  "finalize_dubbing example_env \<lparr>req_job_id = Some ''j1'', req_approved_segments = Some []\<rparr>
     (Some ''u1'') example_world =
     (Inl (HTTPException 400 ''approved_segments is required''), example_world) \<and>
   finalize_dubbing example_env
     \<lparr>req_job_id = Some ''j9'', req_approved_segments = Some example_segments\<rparr>
     (Some ''u1'') example_world =
     (Inl (HTTPException 404 ''Job not found''), example_world)"
proof -
  let ?r1 = "\<lparr>req_job_id = Some ''j1'', req_approved_segments = Some []\<rparr>"
  let ?r2 = "\<lparr>req_job_id = Some ''j9'', req_approved_segments = Some example_segments\<rparr>"
  have "\<exists>detail. finalize_dubbing example_env ?r1 (Some ''u1'') example_world =
          (Inl (HTTPException 400 detail), example_world)"
    using finalize_dubbing_rejects
      [where request = ?r1 and env = example_env and user_sub = "Some ''u1''" and w = example_world]
    by simp
  then have a: "finalize_dubbing example_env ?r1 (Some ''u1'') example_world =
          (Inl (HTTPException 400 ''approved_segments is required''), example_world)"
    by (auto simp: finalize_dubbing_def known_user_def)
  have h: "known_user (req_job_id ?r2) = Some ''j9'' \<and>
           req_approved_segments ?r2 = Some example_segments \<and> example_segments \<noteq> [] \<and>
           map_of (jobs example_world) ''j9'' = None"
    by (simp add: known_user_def example_segments_def example_world_def)
  have b: "finalize_dubbing example_env ?r2 (Some ''u1'') example_world =
          (Inl (HTTPException 404 ''Job not found''), example_world)"
    using finalize_dubbing_rejects
      [where request = ?r2 and jid = "''j9''" and segs = example_segments and env = example_env
         and user_sub = "Some ''u1''" and w = example_world] h
    by blast
  from a b show ?thesis by simp
qed


subsection \<open>C1: the audio offset of Phase 2\<close>

lemma call_stitch_video_raises:
  "call_stitch_video env video audio_segments out optimize tts_delay =
     Inl (TypeError (''stitch_video() got an unexpected keyword argument '' @
                     [CHR 0x27] @ ''tts_delay_seconds'' @ [CHR 0x27]))"
  by (simp add: call_stitch_video_def unexpected_keyword_def stitch_video_params_def)

lemma finalize_try_download_fails:
  "s3_download env file_key (path_join (temp_dir env) ''input_video.mp4'') = Some err \<Longrightarrow>
   finalize_try env jid file_key lang segs user_id w =
     (Some (Exception (''Download failed: '' @ err)),
      assigns jid [Set_status UPLOADING, Set_progress 5, Set_message msg_downloading] w)"
  by (simp add: finalize_try_def Let_def)

lemma finalize_try_stitch_raises:
  "s3_download env file_key (path_join (temp_dir env) ''input_video.mp4'') = None \<Longrightarrow>
   finalize_try env jid file_key lang segs user_id w =
     (Some (TypeError (''stitch_video() got an unexpected keyword argument '' @
                       [CHR 0x27] @ ''tts_delay_seconds'' @ [CHR 0x27])),
      assigns jid
        [Set_progress 50,
         Set_message
           (msg_generated
              (length (generate_segments_from_analysis (tts env)
                         (path_join (temp_dir env) ''audio_segments'')
                         (map to_tts_segment segs) lang ''female''))),
         Set_status STITCHING, Set_progress 55, Set_message msg_stitching]
        (assigns jid
           [Set_progress 15, Set_message msg_downloaded, Set_status GENERATING_AUDIO,
            Set_progress 20, Set_message msg_generating]
           (assigns jid [Set_status UPLOADING, Set_progress 5, Set_message msg_downloading] w)))"
  by (simp add: finalize_try_def Let_def call_stitch_video_raises)

lemma history_update_fields [simp]:
  "jobs (snd (history_update env user_id jid st url key sub w)) = jobs w"
  "job_results (snd (history_update env user_id jid st url key sub w)) = job_results w"
  "upload_calls (snd (history_update env user_id jid st url key sub w)) = upload_calls w"
  "s3_objects (snd (history_update env user_id jid st url key sub w)) = s3_objects w"
  "written_files (snd (history_update env user_id jid st url key sub w)) = written_files w"
  "compact_calls (snd (history_update env user_id jid st url key sub w)) = compact_calls w"
  "tasks (snd (history_update env user_id jid st url key sub w)) = tasks w"
  "events (snd (history_update env user_id jid st url key sub w)) = events w"
  by (simp_all add: history_update_def split: option.splits prod.splits sum.splits)

lemma history_update_table:
  "table (snd (history_update env user_id jid st url key sub w)) =
     (case known_user user_id of
        None \<Rightarrow> table w
      | Some uid \<Rightarrow> snd (update_job_status (db env) uid jid st url key sub (table w)))"
  by (simp add: history_update_def split: option.splits prod.splits sum.splits)

lemma failed_handler_job:
  "map_of (jobs w1) jid = Some job1 \<Longrightarrow>
   map_of (jobs (assigns jid [Set_status FAILED, Set_error e, Set_message m] w1)) jid =
     Some (job1\<lparr>status := FAILED, error := Some e, message := m\<rparr>)"
  by (simp add: assigns_job apply_event_def)

lemma process_finalize_dubbing_raised:
  "map_of (jobs w) jid = Some job \<Longrightarrow>
   finalize_try env jid file_key lang segs user_id w = (Some e, w1) \<Longrightarrow>
   process_finalize_dubbing env jid file_key lang segs user_id w =
     history_update env user_id jid ''failed'' None None None
       (assigns jid
          [Set_status FAILED, Set_error (str_exception e),
           Set_message (msg_failed (str_exception e))] w1)"
  by (simp add: process_finalize_dubbing_def)


lemma process_finalize_dubbing_handler:
  assumes "map_of (jobs w) jid = Some job"
    and "finalize_try env jid file_key lang segs user_id w = (Some e, w1)"
    and "map_of (jobs w1) jid = Some job1"
  shows "map_of (jobs (snd (process_finalize_dubbing env jid file_key lang segs user_id w))) jid =
           Some (job1\<lparr>status := FAILED, error := Some (str_exception e),
                      message := msg_failed (str_exception e)\<rparr>)"
    and "upload_calls (snd (process_finalize_dubbing env jid file_key lang segs user_id w)) =
           upload_calls w1"
    and "compact_calls (snd (process_finalize_dubbing env jid file_key lang segs user_id w)) =
           compact_calls w1"
  unfolding process_finalize_dubbing_raised [OF assms(1,2)]
  using failed_handler_job [OF assms(3)] by simp_all

text \<open>
  C1. The code does not do what the claim says: for every finalize run on a known job,
  whatever the collaborators do, Phase 2 ends with the job FAILED and nothing uploaded.
  When the download succeeds, the failure is the TypeError of the \<open>stitch_video\<close> call,
  whose keyword \<open>tts_delay_seconds\<close> names no parameter; no stitch is run and no offset is
  applied.
\<close>

theorem process_finalize_dubbing_stitch_raises:
  "map_of (jobs w) jid = Some job \<Longrightarrow>
     map_option status
       (map_of (jobs (snd (process_finalize_dubbing env jid file_key lang segs user_id w))) jid) =
       Some FAILED \<and>
     upload_calls (snd (process_finalize_dubbing env jid file_key lang segs user_id w)) =
       upload_calls w \<and>
     (s3_download env file_key (path_join (temp_dir env) ''input_video.mp4'') = None \<longrightarrow>
        map_option error
          (map_of (jobs (snd (process_finalize_dubbing env jid file_key lang segs user_id w))) jid) =
          Some (Some (''stitch_video() got an unexpected keyword argument '' @
                      [CHR 0x27] @ ''tts_delay_seconds'' @ [CHR 0x27])))"
proof -
  assume job: "map_of (jobs w) jid = Some job"
  show ?thesis
  proof (cases "s3_download env file_key (path_join (temp_dir env) ''input_video.mp4'')")
    case (Some err)
    let ?w1 = "assigns jid [Set_status UPLOADING, Set_progress 5, Set_message msg_downloading] w"
    have t: "finalize_try env jid file_key lang segs user_id w =
               (Some (Exception (''Download failed: '' @ err)), ?w1)"
      using Some by (rule finalize_try_download_fails)
    have j1: "map_of (jobs ?w1) jid =
                Some (fold apply_event
                        [Set_status UPLOADING, Set_progress 5, Set_message msg_downloading] job)"
      using job by (simp add: assigns_job)
    show ?thesis
      using process_finalize_dubbing_handler [OF job t j1] Some by simp
  next
    case None
    define n where "n = length (generate_segments_from_analysis (tts env)
                         (path_join (temp_dir env) ''audio_segments'')
                         (map to_tts_segment segs) lang ''female'')"
    have t: "finalize_try env jid file_key lang segs user_id w =
       (Some (TypeError (''stitch_video() got an unexpected keyword argument '' @
                         [CHR 0x27] @ ''tts_delay_seconds'' @ [CHR 0x27])),
        assigns jid
          [Set_progress 50, Set_message (msg_generated n),
           Set_status STITCHING, Set_progress 55, Set_message msg_stitching]
          (assigns jid
             [Set_progress 15, Set_message msg_downloaded, Set_status GENERATING_AUDIO,
              Set_progress 20, Set_message msg_generating]
             (assigns jid [Set_status UPLOADING, Set_progress 5, Set_message msg_downloading] w)))"
      (is "_ = (Some ?e, ?w3)")
      unfolding n_def by (rule finalize_try_stitch_raises [OF None])
    have j3: "map_of (jobs ?w3) jid =
        Some (fold apply_event
                [Set_progress 50, Set_message (msg_generated n),
                 Set_status STITCHING, Set_progress 55, Set_message msg_stitching]
                (fold apply_event
                   [Set_progress 15, Set_message msg_downloaded, Set_status GENERATING_AUDIO,
                    Set_progress 20, Set_message msg_generating]
                   (fold apply_event
                      [Set_status UPLOADING, Set_progress 5, Set_message msg_downloading] job)))"
      using job by (simp add: assigns_job)
    show ?thesis
      using process_finalize_dubbing_handler [OF job t j3] None
      by (simp add: str_exception_def)
  qed
qed


theorem process_finalize_dubbing_stitch_raises_witness:
  "map_option status
     (map_of (jobs (snd (process_finalize_dubbing example_env ''j1'' ''uploads/a.mp4'' ''hindi''
                           example_segments (Some ''u1'') example_world))) ''j1'') = Some FAILED \<and>
   upload_calls (snd (process_finalize_dubbing example_env ''j1'' ''uploads/a.mp4'' ''hindi''
                        example_segments (Some ''u1'') example_world)) = [] \<and>
   map_option error
     (map_of (jobs (snd (process_finalize_dubbing example_env ''j1'' ''uploads/a.mp4'' ''hindi''
                           example_segments (Some ''u1'') example_world))) ''j1'') =
     Some (Some (''stitch_video() got an unexpected keyword argument '' @
                 [CHR 0x27] @ ''tts_delay_seconds'' @ [CHR 0x27]))"
proof -
  have job: "map_of (jobs example_world) ''j1'' = Some example_job"
    by (simp add: example_world_def)
  have dl: "s3_download example_env ''uploads/a.mp4''
              (path_join (temp_dir example_env) ''input_video.mp4'') = None"
    by (simp add: example_env_def)
  have up: "upload_calls example_world = []"
    by (simp add: example_world_def)
  from process_finalize_dubbing_stitch_raises
         [OF job, of example_env "''uploads/a.mp4''" "''hindi''" example_segments "Some ''u1''"]
       dl up
  show ?thesis by simp
qed

subsection \<open>C3: the history update at completion\<close>

lemma update_job_status_not_found:
  "get_video_by_job_id env (Some rows) uid jid = Some video \<Longrightarrow>
   map_of video ''error'' = None \<Longrightarrow> map_of video ''video'' = None \<Longrightarrow>
   update_job_status env uid jid st url key sub (Some rows) =
     (Inr (Db_error ''Video not found''), Some rows)"
  by (simp add: update_job_status_def locate_video_def)

lemma upload_whatsapp_fields [simp]:
  "table (snd (upload_whatsapp env jid lang wr w)) = table w"
  "jobs (snd (upload_whatsapp env jid lang wr w)) = jobs w"
  "job_results (snd (upload_whatsapp env jid lang wr w)) = job_results w"
  "events (snd (upload_whatsapp env jid lang wr w)) = events w"
  "written_files (snd (upload_whatsapp env jid lang wr w)) = written_files w"
  "compact_calls (snd (upload_whatsapp env jid lang wr w)) = compact_calls w"
  "tasks (snd (upload_whatsapp env jid lang wr w)) = tasks w"
  by (simp_all add: upload_whatsapp_def Let_def)

lemma store_results_fields [simp]:
  "table (store_results jid url wurl size_mb w) = table w"
  "jobs (store_results jid url wurl size_mb w) = jobs w"
  "events (store_results jid url wurl size_mb w) = events w"
  "upload_calls (store_results jid url wurl size_mb w) = upload_calls w"
  "s3_objects (store_results jid url wurl size_mb w) = s3_objects w"
  "written_files (store_results jid url wurl size_mb w) = written_files w"
  "compact_calls (store_results jid url wurl size_mb w) = compact_calls w"
  "tasks (store_results jid url wurl size_mb w) = tasks w"
  by (simp_all add: store_results_def split: option.splits)

lemma write_subtitles_fields [simp]:
  "table (snd (write_subtitles env jid segs w)) = table w"
  "jobs (snd (write_subtitles env jid segs w)) = jobs w"
  "job_results (snd (write_subtitles env jid segs w)) = job_results w"
  "events (snd (write_subtitles env jid segs w)) = events w"
  "compact_calls (snd (write_subtitles env jid segs w)) = compact_calls w"
  "tasks (snd (write_subtitles env jid segs w)) = tasks w"
  "fst (write_subtitles env jid segs w) =
     (case vtt_write_error env of Some err \<Rightarrow> None | None \<Rightarrow> Some (subtitle_key_of jid))"
  by (simp_all add: write_subtitles_def Let_def split: option.splits)

lemma finalize_complete_table:
  "table w = Some rows \<Longrightarrow> known_user user_id = Some uid \<Longrightarrow>
   table (snd (finalize_complete env jid lang segs user_id stitch_result whatsapp_result w)) =
     snd (update_job_status (db env) uid jid ''complete'' (presign env (output_key_of jid lang))
            (Some (output_key_of jid lang))
            (case vtt_write_error env of Some err \<Rightarrow> None | None \<Rightarrow> Some (subtitle_key_of jid))
            (Some rows))"
  by (simp add: finalize_complete_def Let_def history_update_table)

text \<open>
  C3. The code does not do what the claim says. When Phase 2 completes for a known
  caller whose history holds the record of the job (an item as \<open>save_video\<close> writes it,
  with no attribute named \<open>video\<close> or \<open>error\<close>), the history table is left exactly as it
  was: \<open>update_job_status\<close> looks for the key under \<open>video["video"]\<close>, finds nothing and
  returns the error \<open>Video not found\<close>. No attribute is written; the update has no
  parameter for a word count or a size in any case.
\<close>

theorem finalize_complete_history_unchanged:
  "table w = Some rows \<Longrightarrow> known_user user_id = Some uid \<Longrightarrow>
   get_video_by_job_id (db env) (Some rows) uid jid = Some video \<Longrightarrow>
   map_of video ''error'' = None \<Longrightarrow> map_of video ''video'' = None \<Longrightarrow>
   table (snd (finalize_complete env jid lang segs user_id stitch_result whatsapp_result w)) =
     Some rows \<and>
   update_job_status (db env) uid jid ''complete'' url (Some (output_key_of jid lang)) sub
     (Some rows) = (Inr (Db_error ''Video not found''), Some rows)"
  by (simp add: finalize_complete_table update_job_status_not_found)

theorem finalize_complete_history_unchanged_witness:
  "get_video_by_job_id (db example_env) (Some [example_item]) ''u1'' ''j1'' = Some example_item \<and>
   table (snd (finalize_complete example_env ''j1'' ''hindi'' example_segments (Some ''u1'')
                 \<lparr>success = True, output_path = Some ''/tmp/nativity_final_j1/output_localized.mp4'',
                  file_size_mb = 20, duration_seconds = 120, pr_error = None\<rparr>
                 None example_world)) = Some [example_item] \<and>
   update_job_status (db example_env) ''u1'' ''j1'' ''complete''
     (Some ''https://s3/outputs/j1/localized_hindi.mp4'') (Some (output_key_of ''j1'' ''hindi''))
     (Some ''subtitles/j1.vtt'') (Some [example_item]) =
     (Inr (Db_error ''Video not found''), Some [example_item])"
proof -
  have t: "table example_world = Some [example_item]"
    by (simp add: example_world_def)
  have u: "known_user (Some ''u1'') = Some ''u1''"
    by (simp add: known_user_def)
  have g: "get_video_by_job_id (db example_env) (Some [example_item]) ''u1'' ''j1'' =
             Some example_item"
    by (simp add: get_video_by_job_id_def matches_job_def example_env_def example_db_def
        example_item_def)
  have e: "map_of example_item ''error'' = None"
    by (simp add: example_item_def)
  have v: "map_of example_item ''video'' = None"
    by (simp add: example_item_def)
  from finalize_complete_history_unchanged [OF t u g e v] g
  show ?thesis by simp
qed


subsection \<open>Effects of the completion block\<close>

lemma upload_file_s3_objects [simp]:
  "s3_objects (snd (upload_file env p k w)) =
     s3_objects w @ (if s3_upload env p k = None then [k] else [])"
  by (simp add: upload_file_def Let_def split: option.splits)

lemma upload_whatsapp_upload_calls:
  "upload_calls (snd (upload_whatsapp env jid lang wr w)) =
     upload_calls w @
     (if (case wr of None \<Rightarrow> False | Some r \<Rightarrow> success r)
      then [(path_join (temp_dir env) ''output_whatsapp.mp4'', whatsapp_key_of jid lang)] else [])"
  by (simp add: upload_whatsapp_def Let_def)

lemma write_subtitles_upload_calls:
  "upload_calls (snd (write_subtitles env jid segs w)) =
     upload_calls w @
     (case vtt_write_error env of
        Some err \<Rightarrow> []
      | None \<Rightarrow> [(path_join (temp_dir env) (jid @ ''.vtt''), subtitle_key_of jid)])"
  by (simp add: write_subtitles_def Let_def split: option.splits)

lemma finalize_complete_compact_calls:
  "compact_calls (snd (finalize_complete env jid lang segs user_id sr wr w)) = compact_calls w"
  by (simp add: finalize_complete_def Let_def)

lemma finalize_complete_upload_calls:
  "upload_calls (snd (finalize_complete env jid lang segs user_id sr wr w)) =
     upload_calls w @
     (if (case wr of None \<Rightarrow> False | Some r \<Rightarrow> success r)
      then [(path_join (temp_dir env) ''output_whatsapp.mp4'', whatsapp_key_of jid lang)] else []) @
     (case vtt_write_error env of
        Some err \<Rightarrow> []
      | None \<Rightarrow> [(path_join (temp_dir env) (jid @ ''.vtt''), subtitle_key_of jid)])"
  by (simp add: finalize_complete_def Let_def upload_whatsapp_upload_calls
      write_subtitles_upload_calls)

lemma finalize_complete_job:
  "map_of (jobs w) jid = Some job \<Longrightarrow>
   map_of (jobs (snd (finalize_complete env jid lang segs user_id sr wr w))) jid =
     Some (job\<lparr>status := COMPLETE, progress := 100,
               output_file := Some (output_key_of jid lang), message := msg_complete\<rparr>)"
  by (simp add: finalize_complete_def Let_def assigns_job apply_event_def)


subsection \<open>Effects of the block after the stitch\<close>

lemma after_stitch_failed:
  "\<not> success sr \<Longrightarrow>
   finalize_after_stitch env jid lang segs user_id sr w =
     (Some (Exception (''Video stitching failed: '' @
              (case pr_error sr of None \<Rightarrow> ''None'' | Some e \<Rightarrow> e))), w)"
  by (simp add: finalize_after_stitch_def)

text \<open>The world in which the primary output is uploaded.\<close>

lemma after_stitch_succeeded:
  "success sr \<Longrightarrow>
   finalize_after_stitch env jid lang segs user_id sr w =
     (let output_video_path = path_join (temp_dir env) ''output_localized.mp4'';
          whatsapp_video_path = path_join (temp_dir env) ''output_whatsapp.mp4'';
          w1 = assigns jid [Set_progress 80, Set_message (msg_stitched (file_size_mb sr))] w;
          w2 = (if 15 < file_size_mb sr
                then (assigns jid [Set_message msg_whatsapp] w1)
                       \<lparr>compact_calls :=
                          compact_calls w1 @ [(output_video_path, whatsapp_video_path, 29 / 2)]\<rparr>
                else w1);
          w3 = assigns jid [Set_progress 90, Set_message msg_uploading] w2;
          up = upload_file env output_video_path (output_key_of jid lang) w3
      in case s3_upload env output_video_path (output_key_of jid lang) of
           Some err \<Rightarrow> (Some (Exception (''Upload failed: '' @ err)), snd up)
         | None \<Rightarrow>
             finalize_complete env jid lang segs user_id sr
               (if 15 < file_size_mb sr
                then Some (create_whatsapp_version (ffmpeg env) output_video_path
                             whatsapp_video_path (29 / 2))
                else None) (snd up))"
  by (simp add: finalize_after_stitch_def Let_def)

lemma after_stitch_compact_calls:
  "compact_calls (snd (finalize_after_stitch env jid lang segs user_id sr w)) =
     compact_calls w @
     (if success sr \<and> 15 < file_size_mb sr
      then [(path_join (temp_dir env) ''output_localized.mp4'',
             path_join (temp_dir env) ''output_whatsapp.mp4'', 29 / 2)]
      else [])"
proof (cases "success sr")
  case False
  then show ?thesis by (simp add: after_stitch_failed)
next
  case True
  show ?thesis
    unfolding after_stitch_succeeded [OF True]
    using True by (simp add: Let_def finalize_complete_compact_calls split: option.splits)
qed


lemma after_stitch_job:
  assumes "map_of (jobs w) jid = Some job" and "success sr"
    and "s3_upload env (path_join (temp_dir env) ''output_localized.mp4'') (output_key_of jid lang) = None"
  shows "map_option status
           (map_of (jobs (snd (finalize_after_stitch env jid lang segs user_id sr w))) jid) =
           Some COMPLETE"
    and "map_option progress
           (map_of (jobs (snd (finalize_after_stitch env jid lang segs user_id sr w))) jid) =
           Some 100"
    and "map_option output_file
           (map_of (jobs (snd (finalize_after_stitch env jid lang segs user_id sr w))) jid) =
           Some (Some (output_key_of jid lang))"
proof -
  let ?out = "path_join (temp_dir env) ''output_localized.mp4''"
  let ?wa = "path_join (temp_dir env) ''output_whatsapp.mp4''"
  let ?w1 = "assigns jid [Set_progress 80, Set_message (msg_stitched (file_size_mb sr))] w"
  let ?w2 = "if 15 < file_size_mb sr
             then (assigns jid [Set_message msg_whatsapp] ?w1)
                    \<lparr>compact_calls := compact_calls ?w1 @ [(?out, ?wa, 29 / 2)]\<rparr>
             else ?w1"
  let ?w3 = "assigns jid [Set_progress 90, Set_message msg_uploading] ?w2"
  let ?up = "upload_file env ?out (output_key_of jid lang) ?w3"
  have "\<exists>j. map_of (jobs ?w1) jid = Some j"
    using assms(1) by (simp add: assigns_job)
  then have "\<exists>j. map_of (jobs ?w2) jid = Some j"
    by (auto simp: assigns_job)
  then have "\<exists>j. map_of (jobs ?w3) jid = Some j"
    by (auto simp: assigns_job)
  then obtain j where j: "map_of (jobs (snd ?up)) jid = Some j"
    by auto
  have eq: "finalize_after_stitch env jid lang segs user_id sr w =
      finalize_complete env jid lang segs user_id sr
        (if 15 < file_size_mb sr
         then Some (create_whatsapp_version (ffmpeg env) ?out ?wa (29 / 2)) else None) (snd ?up)"
    unfolding after_stitch_succeeded [OF assms(2)] using assms(3) by (simp add: Let_def)
  show "map_option status
           (map_of (jobs (snd (finalize_after_stitch env jid lang segs user_id sr w))) jid) =
           Some COMPLETE"
    unfolding eq by (simp add: finalize_complete_job [OF j])
  show "map_option progress
           (map_of (jobs (snd (finalize_after_stitch env jid lang segs user_id sr w))) jid) =
           Some 100"
    unfolding eq by (simp add: finalize_complete_job [OF j])
  show "map_option output_file
           (map_of (jobs (snd (finalize_after_stitch env jid lang segs user_id sr w))) jid) =
           Some (Some (output_key_of jid lang))"
    unfolding eq by (simp add: finalize_complete_job [OF j])
qed

lemma after_stitch_upload_calls:
  assumes "success sr"
    and "s3_upload env (path_join (temp_dir env) ''output_localized.mp4'') (output_key_of jid lang) = None"
  shows "upload_calls (snd (finalize_after_stitch env jid lang segs user_id sr w)) =
     upload_calls w @
     [(path_join (temp_dir env) ''output_localized.mp4'', output_key_of jid lang)] @
     (if 15 < file_size_mb sr \<and>
         success (create_whatsapp_version (ffmpeg env)
                    (path_join (temp_dir env) ''output_localized.mp4'')
                    (path_join (temp_dir env) ''output_whatsapp.mp4'') (29 / 2))
      then [(path_join (temp_dir env) ''output_whatsapp.mp4'', whatsapp_key_of jid lang)] else []) @
     (case vtt_write_error env of
        Some err \<Rightarrow> []
      | None \<Rightarrow> [(path_join (temp_dir env) (jid @ ''.vtt''), subtitle_key_of jid)])"
  unfolding after_stitch_succeeded [OF assms(1)] using assms(2)
  by (simp add: Let_def finalize_complete_upload_calls)


subsection \<open>C9: the compact variant\<close>

lemma key_distinct:
  "whatsapp_key_of jid lang \<noteq> output_key_of jid lang"
  "whatsapp_key_of jid lang \<noteq> subtitle_key_of jid"
  by (simp_all add: whatsapp_key_of_def output_key_of_def subtitle_key_of_def)

text \<open>
  C9. For the block of Phase 2 that follows the stitch, whatever the stitch returned:
  the compact variant is attempted exactly when the stitch succeeded and the reported
  size of the primary output exceeds 15 MB (one attempt, from the primary output, with
  target 14.5 MB). When it is attempted and its encode fails, and the upload of the
  primary output succeeds, the uploads of the block are the primary output (and the
  subtitle file), nothing is uploaded under the compact key, and the job is COMPLETE
  with progress 100 and the primary output key as its output.
\<close>

theorem compact_variant_policy:
  "map_of (jobs w) jid = Some job \<Longrightarrow>
   compact_calls (snd (finalize_after_stitch env jid lang segs user_id sr w)) =
     compact_calls w @
     (if success sr \<and> 15 < file_size_mb sr
      then [(path_join (temp_dir env) ''output_localized.mp4'',
             path_join (temp_dir env) ''output_whatsapp.mp4'', 29 / 2)]
      else []) \<and>
   (success sr \<and> 15 < file_size_mb sr \<and>
    \<not> success (create_whatsapp_version (ffmpeg env)
                 (path_join (temp_dir env) ''output_localized.mp4'')
                 (path_join (temp_dir env) ''output_whatsapp.mp4'') (29 / 2)) \<and>
    s3_upload env (path_join (temp_dir env) ''output_localized.mp4'') (output_key_of jid lang) = None
    \<longrightarrow>
      upload_calls (snd (finalize_after_stitch env jid lang segs user_id sr w)) =
        upload_calls w @
        [(path_join (temp_dir env) ''output_localized.mp4'', output_key_of jid lang)] @
        (case vtt_write_error env of
           Some err \<Rightarrow> []
         | None \<Rightarrow> [(path_join (temp_dir env) (jid @ ''.vtt''), subtitle_key_of jid)]) \<and>
      filter (\<lambda>c. snd c = whatsapp_key_of jid lang)
        (drop (length (upload_calls w))
           (upload_calls (snd (finalize_after_stitch env jid lang segs user_id sr w)))) = [] \<and>
      map_option status
        (map_of (jobs (snd (finalize_after_stitch env jid lang segs user_id sr w))) jid) =
        Some COMPLETE \<and>
      map_option progress
        (map_of (jobs (snd (finalize_after_stitch env jid lang segs user_id sr w))) jid) =
        Some 100 \<and>
      map_option output_file
        (map_of (jobs (snd (finalize_after_stitch env jid lang segs user_id sr w))) jid) =
        Some (Some (output_key_of jid lang)))"
proof -
  assume job: "map_of (jobs w) jid = Some job"
  let ?out = "path_join (temp_dir env) ''output_localized.mp4''"
  let ?wa = "path_join (temp_dir env) ''output_whatsapp.mp4''"
  let ?r = "finalize_after_stitch env jid lang segs user_id sr w"
  have attempts: "compact_calls (snd ?r) =
      compact_calls w @
      (if success sr \<and> 15 < file_size_mb sr then [(?out, ?wa, 29 / 2)] else [])"
    by (rule after_stitch_compact_calls)
  {
    assume h: "success sr \<and> 15 < file_size_mb sr \<and>
               \<not> success (create_whatsapp_version (ffmpeg env) ?out ?wa (29 / 2)) \<and>
               s3_upload env ?out (output_key_of jid lang) = None"
    then have s: "success sr" and u: "s3_upload env ?out (output_key_of jid lang) = None"
      by simp_all
    have calls: "upload_calls (snd ?r) =
        upload_calls w @ [(?out, output_key_of jid lang)] @
        (case vtt_write_error env of
           Some err \<Rightarrow> []
         | None \<Rightarrow> [(path_join (temp_dir env) (jid @ ''.vtt''), subtitle_key_of jid)])"
      using after_stitch_upload_calls [OF s u, of segs user_id w] h by simp
    have none: "filter (\<lambda>c. snd c = whatsapp_key_of jid lang)
                  (drop (length (upload_calls w)) (upload_calls (snd ?r))) = []"
      unfolding calls using key_distinct [of jid lang]
      by (auto split: option.splits)
    note calls none after_stitch_job [OF job s u, of segs user_id]
  }
  with attempts show ?thesis by blast
qed

theorem compact_variant_policy_witness:
  "compact_calls (snd (finalize_after_stitch example_env_compact_fails ''j1'' ''hindi''
                         example_segments (Some ''u1'') example_stitch_result example_world)) =
     [(''/tmp/nativity_final_j1/output_localized.mp4'',
       ''/tmp/nativity_final_j1/output_whatsapp.mp4'', 29 / 2)] \<and>
   upload_calls (snd (finalize_after_stitch example_env_compact_fails ''j1'' ''hindi''
                        example_segments (Some ''u1'') example_stitch_result example_world)) =
     [(''/tmp/nativity_final_j1/output_localized.mp4'', ''outputs/j1/localized_hindi.mp4''),
      (''/tmp/nativity_final_j1/j1.vtt'', ''subtitles/j1.vtt'')] \<and>
   map_option status
     (map_of (jobs (snd (finalize_after_stitch example_env_compact_fails ''j1'' ''hindi''
                           example_segments (Some ''u1'') example_stitch_result example_world)))
        ''j1'') = Some COMPLETE"
proof -
  let ?env = example_env_compact_fails
  have job: "map_of (jobs example_world) ''j1'' = Some example_job"
    by (simp add: example_world_def)
  have td: "temp_dir ?env = ''/tmp/nativity_final_j1''"
    by (simp add: example_env_compact_fails_def example_env_def)
  have paths: "path_join ''/tmp/nativity_final_j1'' ''output_localized.mp4'' =
                 ''/tmp/nativity_final_j1/output_localized.mp4''"
              "path_join ''/tmp/nativity_final_j1'' ''output_whatsapp.mp4'' =
                 ''/tmp/nativity_final_j1/output_whatsapp.mp4''"
              "path_join ''/tmp/nativity_final_j1'' ''j1.vtt'' =
                 ''/tmp/nativity_final_j1/j1.vtt''"
    by (simp_all add: path_join_def)
  have h: "success example_stitch_result \<and> 15 < file_size_mb example_stitch_result \<and>
           \<not> success (create_whatsapp_version (ffmpeg ?env)
                        (path_join (temp_dir ?env) ''output_localized.mp4'')
                        (path_join (temp_dir ?env) ''output_whatsapp.mp4'') (29 / 2)) \<and>
           s3_upload ?env (path_join (temp_dir ?env) ''output_localized.mp4'')
             (output_key_of ''j1'' ''hindi'') = None"
    by (simp add: example_stitch_result_def example_env_compact_fails_def example_env_def
        example_ffmpeg_def create_whatsapp_version_def get_video_info_def
        whatsapp_target_bitrate_def failed_result_def Let_def)
  have v: "vtt_write_error ?env = None"
    by (simp add: example_env_compact_fails_def example_env_def)
  have c: "compact_calls example_world = []" "upload_calls example_world = []"
    by (simp_all add: example_world_def)
  from compact_variant_policy
         [OF job, of ?env "''hindi''" example_segments "Some ''u1''" example_stitch_result] h
  show ?thesis
    by (simp add: td paths v c output_key_of_def subtitle_key_of_def)
qed


subsection \<open>C8: progress within a phase\<close>



















end
